theory Spec2Isabelle
  imports Complex_Main
begin

section \<open>Shared conventions\<close>

text \<open>
  The development embeds three files of the QA kit: the failure classifier
  (\<^verbatim>\<open>core/failure-classifier.ts\<close>), the page health scorer and the resource guard
  (both in \<^verbatim>\<open>core/page-health.ts\<close>) and the evidence collector
  (\<^verbatim>\<open>core/evidence-collector.ts\<close>).

  JavaScript numbers that the code only counts, compares and adds are modelled exactly:
  HTTP statuses, byte counts, millisecond clocks and counters as \<open>int\<close> or \<open>nat\<close>,
  confidences and paint timings as \<open>rat\<close>. The confidence increments are decimal
  fractions, so a sum of several of them is exact here and rounded in an IEEE double;
  a single increment added to the initial 0 is exact in both.
  An optional field is an \<open>option\<close>; \<open>undefined\<close> is \<open>None\<close>.
  Messages written with \<^verbatim>\<open>console.log\<close> are not part of the model.
\<close>

subsection \<open>Strings\<close>

fun starts_with :: "string \<Rightarrow> string \<Rightarrow> bool" where
  "starts_with s [] = True"
| "starts_with [] (c # t) = False"
| "starts_with (a # s) (c # t) = (a = c \<and> starts_with s t)"

text \<open>\<^verbatim>\<open>String.prototype.includes\<close>: a case-sensitive search for a contiguous substring.\<close>

fun str_includes :: "string \<Rightarrow> string \<Rightarrow> bool" where
  "str_includes [] t = (t = [])"
| "str_includes (a # s) t = (starts_with (a # s) t \<or> str_includes s t)"

text \<open>\<open>x?.includes(t)\<close> used as a condition: an absent string does not match.\<close>

definition opt_includes :: "string option \<Rightarrow> string \<Rightarrow> bool" where
  "opt_includes m t = (case m of None \<Rightarrow> False | Some s \<Rightarrow> str_includes s t)"

text \<open>\<open>xs?.some(p)\<close> used as a condition: an absent array has no match.\<close>

definition opt_some :: "'a list option \<Rightarrow> ('a \<Rightarrow> bool) \<Rightarrow> bool" where
  "opt_some m p = (case m of None \<Rightarrow> False | Some xs \<Rightarrow> list_ex p xs)"

text \<open>\<open>xs?.filter(p) || []\<close>.\<close>

definition opt_filter :: "'a list option \<Rightarrow> ('a \<Rightarrow> bool) \<Rightarrow> 'a list" where
  "opt_filter m p = (case m of None \<Rightarrow> [] | Some xs \<Rightarrow> filter p xs)"

text \<open>The decimal text of a count, as a template literal prints it.\<close>

definition digit_char :: "nat \<Rightarrow> char" where
  "digit_char d = char_of (48 + d)"

fun string_of_nat :: "nat \<Rightarrow> string" where
  "string_of_nat n =
     (if n < 10 then [digit_char n] else string_of_nat (n div 10) @ [digit_char (n mod 10)])"

declare string_of_nat.simps [simp del]

section \<open>Failure classifier\<close>

record NetworkFailure =
  nf_url :: string
  nf_status :: int
  nf_statusText :: string
  nf_failure :: "string option"

record ConsoleError =
  ce_type :: string
  ce_text :: string
  ce_location :: "string option"
  ce_timestamp :: int

record NavigationTimings =
  loadEventEnd :: rat
  domContentLoaded :: rat

record HeapMemory =
  usedJSHeapSize :: int
  totalJSHeapSize :: int

record PaintTimings =
  pt_firstContentfulPaint :: "rat option"
  pt_largestContentfulPaint :: "rat option"

record PerformanceMetrics =
  navigation :: "NavigationTimings option"
  memory :: "HeapMemory option"
  timing :: "PaintTimings option"

record Evidence =
  errorMessage :: "string option"
  networkFailures :: "NetworkFailure list option"
  consoleErrors :: "ConsoleError list option"
  performanceMetrics :: "PerformanceMetrics option"
  screenshot :: "string option"
  domSnapshot :: "string option"
  ev_url :: string
  ev_timestamp :: string

datatype ClassificationType = TestFlake | AppRegression | EnvironmentIssue | DataProblem

record Classification =
  cl_type :: ClassificationType
  confidence :: rat
  reasons :: "string list"
  recommendation :: "string list"
  fixable :: bool

record FullClassification = Classification +
  allClassifications :: "Classification list"
  analysisTimestamp :: string

text \<open>
  Every heuristic runs a sequence of
  \<^verbatim>\<open>if (cond) { confidence += w; reasons.push(r); }\<close> statements over the pair of local
  variables \<open>(confidence, reasons)\<close>; \<open>scored\<close> is one such statement.
\<close>

definition scored :: "bool \<Rightarrow> rat \<Rightarrow> string \<Rightarrow> rat \<times> string list \<Rightarrow> rat \<times> string list" where
  "scored cond w r acc = (if cond then (fst acc + w, snd acc @ [r]) else acc)"

text \<open>\<open>recommendations.length > 0 ? recommendations : [fallback]\<close>.\<close>

definition or_default :: "string list \<Rightarrow> string \<Rightarrow> string list" where
  "or_default recommendations fallback =
     (if length recommendations > 0 then recommendations else [fallback])"

definition getFlakeRecommendation :: "string list \<Rightarrow> string list" where
  "getFlakeRecommendation rs =
     or_default
       ((if list_ex (\<lambda>r. str_includes r ''timeout'') rs
         then [''Increase timeout values for slow operations'',
               ''Add explicit waits for element visibility''] else []) @
        (if list_ex (\<lambda>r. str_includes r ''Element not found'') rs
         then [''Use more reliable selectors (data-test attributes)'',
               ''Wait for element to be both visible and stable''] else []) @
        (if list_ex (\<lambda>r. str_includes r ''Network timeout'') rs
         then [''Add network request retries'',
               ''Check API response time expectations''] else []))
       ''Add explicit waits and improve selector stability''"

definition getAppRegressionRecommendation :: "Evidence \<Rightarrow> string list" where
  "getAppRegressionRecommendation evidence =
     or_default
       ((if opt_some (consoleErrors evidence) (\<lambda>e. str_includes (ce_text e) ''TypeError'')
         then [''Check for undefined variables or null references'',
               ''Verify object properties exist before accessing''] else []) @
        (if opt_some (networkFailures evidence) (\<lambda>f. nf_status f \<ge> 500)
         then [''Check server logs for backend errors'',
               ''Verify API endpoint functionality''] else []) @
        (if opt_some (networkFailures evidence) (\<lambda>f. nf_status f = 404)
         then [''Verify API route exists and is properly defined'',
               ''Check for route parameter formatting''] else []))
       ''Review application logs and recent code changes''"

definition getEnvironmentRecommendation :: "string list \<Rightarrow> string list" where
  "getEnvironmentRecommendation rs =
     or_default
       ((if list_ex (\<lambda>r. str_includes r ''Connection refused'') rs
         then [''Verify the application server is running'',
               ''Check if the correct port is being used''] else []) @
        (if list_ex (\<lambda>r. str_includes r ''DNS resolution'') rs
         then [''Check network connectivity'',
               ''Verify hostname/URL configuration''] else []) @
        (if list_ex (\<lambda>r. str_includes r ''Browser session'') rs
         then [''Check browser driver compatibility'',
               ''Verify sufficient system resources''] else []))
       ''Check system resources and network connectivity''"

definition getDataRecommendation :: "string list \<Rightarrow> string list" where
  "getDataRecommendation rs =
     or_default
       ((if list_ex (\<lambda>r. str_includes r ''Authentication failure'') rs
         then [''Verify test credentials are correct'',
               ''Check if authentication tokens are expired''] else []) @
        (if list_ex (\<lambda>r. str_includes r ''not found'') rs
         then [''Ensure test data is properly seeded'',
               ''Verify database is in correct state''] else []))
       ''Check test data setup and database state''"

text \<open>
  \<open>(consoleErrors?.some(..) || networkFailures?.some(..)) ?? false\<close>: an absent list
  contributes \<open>undefined\<close>, which is falsy for \<open>||\<close> and replaced by \<open>false\<close> at the end.
\<close>

definition isObviousAppFix :: "Evidence \<Rightarrow> bool" where
  "isObviousAppFix evidence =
     (opt_some (consoleErrors evidence) (\<lambda>e. str_includes (ce_text e) ''Cannot read property'') \<or>
      opt_some (networkFailures evidence)
        (\<lambda>f. nf_status f = 404 \<and> str_includes (nf_url f) ''/api/''))"

definition classifyAsTestFlake :: "Evidence \<Rightarrow> Classification" where
  "classifyAsTestFlake evidence =
     (let acc = (0, []);
          acc = scored (opt_includes (errorMessage evidence) ''timeout'')
                  (6/10) ''Contains timeout error'' acc;
          acc = scored (opt_includes (errorMessage evidence) ''Element not found'')
                  (4/10) ''Element not found - possibly race condition'' acc;
          acc = scored (opt_some (networkFailures evidence)
                          (\<lambda>f. opt_includes (nf_failure f) ''timeout''))
                  (3/10) ''Network timeout detected'' acc;
          acc = scored (opt_includes (errorMessage evidence) ''not visible'' \<or>
                        opt_includes (errorMessage evidence) ''not attached'')
                  (5/10) ''Element visibility/attachment issue'' acc;
          acc = scored (opt_some (consoleErrors evidence)
                          (\<lambda>e. str_includes (ce_text e) ''animation'' \<or>
                               str_includes (ce_text e) ''transition''))
                  (2/10) ''Animation/transition interference detected'' acc
      in \<lparr> cl_type = TestFlake,
           confidence = min (fst acc) (95/100),
           reasons = snd acc,
           recommendation = getFlakeRecommendation (snd acc),
           fixable = True \<rparr>)"

definition appErrors :: "Evidence \<Rightarrow> ConsoleError list" where
  "appErrors evidence =
     (case consoleErrors evidence of
        None \<Rightarrow> []
      | Some es \<Rightarrow>
          if length es > 0
          then filter (\<lambda>e. str_includes (ce_text e) ''TypeError'' \<or>
                           str_includes (ce_text e) ''ReferenceError'' \<or>
                           str_includes (ce_text e) ''Cannot read property'') es
          else [])"

definition serverErrors :: "Evidence \<Rightarrow> NetworkFailure list" where
  "serverErrors evidence = opt_filter (networkFailures evidence) (\<lambda>f. nf_status f \<ge> 500)"

definition clientErrors :: "Evidence \<Rightarrow> NetworkFailure list" where
  "clientErrors evidence =
     opt_filter (networkFailures evidence) (\<lambda>f. nf_status f \<ge> 400 \<and> nf_status f < 500)"

definition classifyAsAppRegression :: "Evidence \<Rightarrow> Classification" where
  "classifyAsAppRegression evidence =
     (let acc = (0, []);
          acc = scored (length (appErrors evidence) > 0) (7/10)
                  (string_of_nat (length (appErrors evidence)) @ '' JavaScript errors detected'')
                  acc;
          acc = scored (length (serverErrors evidence) > 0) (8/10)
                  (string_of_nat (length (serverErrors evidence)) @ '' server errors (5xx)'')
                  acc;
          acc = scored (length (clientErrors evidence) > 0) (6/10)
                  (string_of_nat (length (clientErrors evidence)) @ '' client errors (4xx)'')
                  acc;
          acc = scored (opt_some (consoleErrors evidence)
                          (\<lambda>e. str_includes (ce_text e) ''React'' \<or>
                               str_includes (ce_text e) ''Vue'' \<or>
                               str_includes (ce_text e) ''component''))
                  (5/10) ''Frontend framework error detected'' acc
      in \<lparr> cl_type = AppRegression,
           confidence = min (fst acc) (95/100),
           reasons = snd acc,
           recommendation = getAppRegressionRecommendation evidence,
           fixable = (fst acc > 8/10 \<and> isObviousAppFix evidence) \<rparr>)"

text \<open>
  \<open>memory?.usedJSHeapSize && memory.usedJSHeapSize > 100000000\<close>: the size must be
  present, non-zero and above the bound.
\<close>

definition highMemory :: "Evidence \<Rightarrow> bool" where
  "highMemory evidence =
     (case performanceMetrics evidence of
        None \<Rightarrow> False
      | Some pm \<Rightarrow>
          (case memory pm of
             None \<Rightarrow> False
           | Some m \<Rightarrow> usedJSHeapSize m \<noteq> 0 \<and> usedJSHeapSize m > 100000000))"

definition classifyAsEnvironmentIssue :: "Evidence \<Rightarrow> Classification" where
  "classifyAsEnvironmentIssue evidence =
     (let acc = (0, []);
          acc = scored (opt_some (networkFailures evidence)
                          (\<lambda>f. opt_includes (nf_failure f) ''ECONNREFUSED''))
                  (9/10) ''Connection refused - service may be down'' acc;
          acc = scored (opt_some (networkFailures evidence)
                          (\<lambda>f. opt_includes (nf_failure f) ''net::ERR_CONNECTION_RESET''))
                  (8/10) ''Connection reset - network instability'' acc;
          acc = scored (opt_some (networkFailures evidence)
                          (\<lambda>f. opt_includes (nf_failure f) ''ENOTFOUND''))
                  (9/10) ''DNS resolution failed'' acc;
          acc = scored (opt_includes (errorMessage evidence) ''Session closed'' \<or>
                        opt_includes (errorMessage evidence) ''browser has been closed'')
                  (8/10) ''Browser session terminated unexpectedly'' acc;
          acc = scored (highMemory evidence) (3/10) ''High memory usage detected'' acc
      in \<lparr> cl_type = EnvironmentIssue,
           confidence = min (fst acc) (95/100),
           reasons = snd acc,
           recommendation = getEnvironmentRecommendation (snd acc),
           fixable = False \<rparr>)"

definition classifyAsDataProblem :: "Evidence \<Rightarrow> Classification" where
  "classifyAsDataProblem evidence =
     (let acc = (0, []);
          acc = scored (opt_some (networkFailures evidence) (\<lambda>f. nf_status f = 401))
                  (7/10) ''Authentication failure detected'' acc;
          acc = scored (opt_includes (errorMessage evidence) ''not found'' \<and>
                        opt_some (networkFailures evidence) (\<lambda>f. nf_status f = 404))
                  (6/10) ''Test data not found (404)'' acc;
          acc = scored (opt_some (networkFailures evidence) (\<lambda>f. nf_status f = 503))
                  (5/10) ''Service unavailable - possible database issue'' acc;
          acc = scored (opt_some (networkFailures evidence) (\<lambda>f. nf_status f = 422))
                  (4/10) ''Validation error - data format issue'' acc
      in \<lparr> cl_type = DataProblem,
           confidence = min (fst acc) (95/100),
           reasons = snd acc,
           recommendation = getDataRecommendation (snd acc),
           fixable = False \<rparr>)"

text \<open>The callback of \<open>classifications.reduce\<close>.\<close>

definition better :: "Classification \<Rightarrow> Classification \<Rightarrow> Classification" where
  "better best current = (if confidence current > confidence best then current else best)"

text \<open>
  \<open>reduce\<close> is called without an initial value on the four-element array, so the
  first heuristic's result is the initial \<open>best\<close> and the other three are folded in from
  left to right. The clock reading \<open>now\<close> is \<open>new Date().toISOString()\<close>.
\<close>

definition classify :: "string \<Rightarrow> Evidence \<Rightarrow> FullClassification" where
  "classify now evidence =
     (let classifications =
            [classifyAsTestFlake evidence, classifyAsAppRegression evidence,
             classifyAsEnvironmentIssue evidence, classifyAsDataProblem evidence];
          bestMatch = foldl better (hd classifications) (tl classifications)
      in Classification.extend bestMatch
           (FullClassification.fields classifications now))"

section \<open>Resource guard\<close>

text \<open>A value thrown by JavaScript code: an \<open>Error\<close> with its message, or \<open>undefined\<close>.\<close>

datatype thrown = Error string | Undefined

text \<open>
  A Node process either keeps running with a state or has been ended by
  \<open>process.exit(code)\<close>.
\<close>

datatype 'a process = Running 'a | Exited int

record ResourceLimits =
  maxRunTime :: int
  maxMemoryMB :: int
  maxRetries :: int
  maxHealingAttempts :: int
  maxConcurrentTests :: int
  testTimeout :: int
  pageTimeout :: int
  elementTimeout :: int
  networkTimeout :: int
  screenshotTimeout :: int

text \<open>\<open>Partial<ResourceLimits>\<close>: every field may be absent.\<close>

record PartialResourceLimits =
  custom_maxRunTime :: "int option"
  custom_maxMemoryMB :: "int option"
  custom_maxRetries :: "int option"
  custom_maxHealingAttempts :: "int option"
  custom_maxConcurrentTests :: "int option"
  custom_testTimeout :: "int option"
  custom_pageTimeout :: "int option"
  custom_elementTimeout :: "int option"
  custom_networkTimeout :: "int option"
  custom_screenshotTimeout :: "int option"

record ResourceStats =
  startTime :: int
  startMemory :: int
  testsRun :: int
  retriesUsed :: int
  healingAttempts :: int
  resourceWarnings :: int

datatype BreakerState = CLOSED | OPEN | HALF_OPEN

record CircuitBreakerState =
  failures :: int
  threshold :: int
  timeout :: int
  state :: BreakerState
  lastFailure :: "int option"

text \<open>\<open>monitoringInterval\<close> holds whether the 5-second monitor timer is armed.\<close>

record ResourceGuard =
  limits :: ResourceLimits
  stats :: ResourceStats
  circuitBreaker :: CircuitBreakerState
  monitoringInterval :: bool

text \<open>What a monitor check reads from its host: the clock, the heap and whether
  \<open>global.gc\<close> is exposed.\<close>

record Host =
  dateNow :: int
  heapUsed :: int
  gcExposed :: bool

text \<open>\<open>{ ...defaults, ...customLimits }\<close>: a custom field, when present, replaces the default.\<close>

definition overridden :: "int \<Rightarrow> int option \<Rightarrow> int" where
  "overridden dflt custom = (case custom of None \<Rightarrow> dflt | Some v \<Rightarrow> v)"

definition defaultLimits :: "string \<Rightarrow> PartialResourceLimits \<Rightarrow> ResourceLimits" where
  "defaultLimits suiteType customLimits =
     \<lparr> maxRunTime = overridden (if suiteType = ''full'' then 30 * 60 * 1000 else 10 * 60 * 1000)
                      (custom_maxRunTime customLimits),
       maxMemoryMB = overridden 512 (custom_maxMemoryMB customLimits),
       maxRetries = overridden 3 (custom_maxRetries customLimits),
       maxHealingAttempts = overridden 2 (custom_maxHealingAttempts customLimits),
       maxConcurrentTests = overridden 1 (custom_maxConcurrentTests customLimits),
       testTimeout = overridden 60000 (custom_testTimeout customLimits),
       pageTimeout = overridden 30000 (custom_pageTimeout customLimits),
       elementTimeout = overridden 15000 (custom_elementTimeout customLimits),
       networkTimeout = overridden 30000 (custom_networkTimeout customLimits),
       screenshotTimeout = overridden 5000 (custom_screenshotTimeout customLimits) \<rparr>"

definition noCustomLimits :: PartialResourceLimits where
  "noCustomLimits =
     \<lparr> custom_maxRunTime = None, custom_maxMemoryMB = None, custom_maxRetries = None,
       custom_maxHealingAttempts = None, custom_maxConcurrentTests = None,
       custom_testTimeout = None, custom_pageTimeout = None, custom_elementTimeout = None,
       custom_networkTimeout = None, custom_screenshotTimeout = None \<rparr>"

text \<open>
  The constructor, at clock reading \<open>now\<close> and heap size \<open>heap\<close>. It also installs the
  signal handlers and arms the monitor timer.
\<close>

definition new_ResourceGuard :: "string \<Rightarrow> PartialResourceLimits \<Rightarrow> int \<Rightarrow> int \<Rightarrow> ResourceGuard" where
  "new_ResourceGuard suiteType customLimits now heap =
     \<lparr> limits = defaultLimits suiteType customLimits,
       stats = \<lparr> startTime = now, startMemory = heap, testsRun = 0, retriesUsed = 0,
                 healingAttempts = 0, resourceWarnings = 0 \<rparr>,
       circuitBreaker = \<lparr> failures = 0, threshold = 5, timeout = 60000, state = CLOSED,
                          lastFailure = None \<rparr>,
       monitoringInterval = True \<rparr>"

text \<open>\<open>emergencyShutdown\<close> clears the monitor timer and calls \<open>process.exit(1)\<close>.\<close>

definition emergencyShutdown :: "string \<Rightarrow> ResourceGuard \<Rightarrow> 'a process" where
  "emergencyShutdown reason g = Exited 1"

definition handleResourceLimit :: "string \<Rightarrow> ResourceGuard \<Rightarrow> 'a process" where
  "handleResourceLimit reason g = emergencyShutdown reason g"

text \<open>
  \<open>lastFailure && Date.now() - lastFailure > timeout\<close>: \<open>null\<close> and \<open>0\<close> are both falsy.
\<close>

definition cooldownExpired :: "int \<Rightarrow> CircuitBreakerState \<Rightarrow> bool" where
  "cooldownExpired now cb =
     (case lastFailure cb of
        None \<Rightarrow> False
      | Some t \<Rightarrow> t \<noteq> 0 \<and> now - t > timeout cb)"

text \<open>The last section of \<open>checkResourceLimits\<close>, reached when neither limit ends the process.\<close>

definition checkCircuitBreaker :: "int \<Rightarrow> ResourceGuard \<Rightarrow> ResourceGuard" where
  "checkCircuitBreaker now g =
     (if state (circuitBreaker g) = OPEN \<and> cooldownExpired now (circuitBreaker g)
      then g\<lparr>circuitBreaker := (circuitBreaker g)\<lparr>state := HALF_OPEN\<rparr>\<rparr>
      else g)"

text \<open>
  One run of the periodic monitor. The result is the process status; a running process
  carries the new guard and the number of \<open>global.gc()\<close> calls the check made.
\<close>

definition checkResourceLimits :: "Host \<Rightarrow> ResourceGuard \<Rightarrow> (ResourceGuard \<times> nat) process" where
  "checkResourceLimits host g =
     (let runtime = dateNow host - startTime (stats g);
          memoryMB = (of_int (heapUsed host) :: rat) / 1024 / 1024
      in if runtime > maxRunTime (limits g) then handleResourceLimit ''MAX_RUNTIME'' g
         else if memoryMB > of_int (maxMemoryMB (limits g)) then
           (let g1 = g\<lparr>stats := (stats g)\<lparr>resourceWarnings := resourceWarnings (stats g) + 1\<rparr>\<rparr>
            in if resourceWarnings (stats g1) > 3 then handleResourceLimit ''MAX_MEMORY'' g1
               else Running (checkCircuitBreaker (dateNow host) g1,
                             if gcExposed host then 1 else 0))
         else Running (checkCircuitBreaker (dateNow host) g, 0))"

definition canProceed :: "ResourceGuard \<Rightarrow> bool" where
  "canProceed g = (if state (circuitBreaker g) = OPEN then False else True)"

definition recordCircuitBreakerFailure :: "int \<Rightarrow> ResourceGuard \<Rightarrow> ResourceGuard" where
  "recordCircuitBreakerFailure now g =
     (let cb = (circuitBreaker g)\<lparr>failures := failures (circuitBreaker g) + 1\<rparr>
      in if failures cb \<ge> threshold cb
         then g\<lparr>circuitBreaker := cb\<lparr>state := OPEN, lastFailure := Some now\<rparr>\<rparr>
         else g\<lparr>circuitBreaker := cb\<rparr>)"

definition recordCircuitBreakerSuccess :: "ResourceGuard \<Rightarrow> ResourceGuard" where
  "recordCircuitBreakerSuccess g =
     (let cb = (circuitBreaker g)\<lparr>failures := 0\<rparr>
      in if state cb = HALF_OPEN
         then g\<lparr>circuitBreaker := cb\<lparr>state := CLOSED\<rparr>\<rparr>
         else g\<lparr>circuitBreaker := cb\<rparr>)"

text \<open>\<open>x || dflt\<close> on an optional number: absent and \<open>0\<close> both select the default.\<close>

definition or_else :: "int option \<Rightarrow> int \<Rightarrow> int" where
  "or_else x dflt = (case x of None \<Rightarrow> dflt | Some v \<Rightarrow> if v \<noteq> 0 then v else dflt)"

definition string_of_int :: "int \<Rightarrow> string" where
  "string_of_int i = (if i < 0 then ''-'' @ string_of_nat (nat (- i)) else string_of_nat (nat i))"

text \<open>
  \<open>withTimeout\<close> races the operation against a timer. The operation is given by the
  outcome of that race: \<open>operation d\<close> is its result or thrown value when it settles
  before a timer of \<open>d\<close> milliseconds fires, and \<open>None\<close> when the timer fires first.
\<close>

definition withTimeout ::
  "ResourceGuard \<Rightarrow> (int \<Rightarrow> (thrown + 'a) option) \<Rightarrow> string \<Rightarrow> int option \<Rightarrow> thrown + 'a" where
  "withTimeout g operation name timeoutMs =
     (let timeout = or_else timeoutMs (testTimeout (limits g))
      in case operation timeout of
           Some settled \<Rightarrow> settled
         | None \<Rightarrow> Inl (Error (''Operation \"'' @ name @ ''\" timed out after '' @
                               string_of_int timeout @ ''ms'')))"

text \<open>What \<open>withRetry\<close> does that a caller can observe besides its result.\<close>

datatype retry_event = Invoked int | Slept int

definition backoffMs :: "int \<Rightarrow> int" where
  "backoffMs attempt = min (1000 * 2 ^ nat (attempt - 1)) 10000"

text \<open>
  The \<open>for\<close> loop of \<open>withRetry\<close> from a given \<open>attempt\<close> on. \<open>operation k\<close> is what the
  operation's invocation in attempt \<open>k\<close> returns or throws, \<open>now\<close> the clock reading when
  the final failure is recorded. The statement after the loop throws \<open>lastError\<close>.
\<close>

function retry_loop ::
  "(int \<Rightarrow> thrown + 'a) \<Rightarrow> int \<Rightarrow> int \<Rightarrow> int \<Rightarrow> thrown \<Rightarrow> ResourceGuard \<Rightarrow> retry_event list
     \<Rightarrow> (thrown + 'a) \<times> ResourceGuard \<times> retry_event list" where
  "retry_loop operation now retries attempt lastError g trace =
     (if attempt \<le> retries then
        (case operation attempt of
           Inr result \<Rightarrow> (Inr result, g, trace @ [Invoked attempt])
         | Inl error \<Rightarrow>
             (let g1 = g\<lparr>stats := (stats g)\<lparr>retriesUsed := retriesUsed (stats g) + 1\<rparr>\<rparr>
              in if attempt = retries
                 then (Inl error, recordCircuitBreakerFailure now g1, trace @ [Invoked attempt])
                 else retry_loop operation now retries (attempt + 1) error g1
                        (trace @ [Invoked attempt, Slept (backoffMs attempt)])))
      else (Inl lastError, g, trace))"
  by pat_completeness auto
termination
  by (relation "measure (\<lambda>(operation, now, retries, attempt, lastError, g, trace).
                  nat (retries + 1 - attempt))") auto

declare retry_loop.simps [simp del]

definition withRetry ::
  "ResourceGuard \<Rightarrow> (int \<Rightarrow> thrown + 'a) \<Rightarrow> string \<Rightarrow> int option \<Rightarrow> int
     \<Rightarrow> (thrown + 'a) \<times> ResourceGuard \<times> retry_event list" where
  "withRetry g operation name maxRetriesArg now =
     (let retries = or_else maxRetriesArg (maxRetries (limits g))
      in retry_loop operation now retries 1 Undefined g [])"

section \<open>Page health scorer\<close>

record ObservedConsoleError =
  oce_type :: string
  oce_text :: string
  oce_timestamp :: int

record ObservedNetworkFailure =
  onf_url :: string
  onf_status :: "int option"
  onf_failure :: "string option"
  onf_timestamp :: int

record PageHealthScorer =
  sc_consoleErrors :: "ObservedConsoleError list"
  sc_networkFailures :: "ObservedNetworkFailure list"
  sc_startTime :: int

datatype Severity = Low | Medium | High

record AccessibilityIssue =
  ai_type :: string
  ai_count :: nat
  ai_elements :: "string list option"
  ai_severity :: Severity

record PageHeap =
  ph_usedJSHeapSize :: int
  ph_totalJSHeapSize :: int
  ph_jsHeapSizeLimit :: int

record PagePerformanceMetrics =
  ppm_domContentLoaded :: "rat option"
  ppm_loadComplete :: "rat option"
  ppm_firstPaint :: "rat option"
  ppm_firstContentfulPaint :: "rat option"
  ppm_memory :: "PageHeap option"
  ppm_resourceCount :: nat
  ppm_timestamp :: int

record PageHealthMetrics =
  m_consoleErrors :: nat
  m_networkFailures :: nat
  m_firstContentfulPaint :: "rat option"
  m_accessibilityIssues :: nat
  m_performanceScore :: int
  m_errorScore :: int
  m_accessibilityScore :: int

record PageHealthReport =
  score :: int
  issues :: "string list"
  recommendations :: "string list"
  metrics :: PageHealthMetrics
  report_url :: string
  report_timestamp :: string

text \<open>
  The page session as the scorer uses it: its URL and what the two \<open>page.evaluate\<close>
  calls return or throw. The scripts evaluated inside the browser (reading the
  Performance API, querying the DOM for unlabelled elements) are the browser's part.
\<close>

record ScoredPage =
  sp_url :: string
  sp_performance :: "thrown + PagePerformanceMetrics"
  sp_accessibility :: "thrown + AccessibilityIssue list"

definition capturePerformanceMetrics :: "ScoredPage \<Rightarrow> PagePerformanceMetrics option" where
  "capturePerformanceMetrics page =
     (case sp_performance page of Inr m \<Rightarrow> Some m | Inl error \<Rightarrow> None)"

definition checkAccessibilityIssues :: "ScoredPage \<Rightarrow> AccessibilityIssue list" where
  "checkAccessibilityIssues page =
     (case sp_accessibility page of Inr found \<Rightarrow> found | Inl error \<Rightarrow> [])"

text \<open>\<open>performanceMetrics?.firstContentfulPaint\<close>.\<close>

definition fcp_of :: "PagePerformanceMetrics option \<Rightarrow> rat option" where
  "fcp_of pm = (case pm of None \<Rightarrow> None | Some m \<Rightarrow> ppm_firstContentfulPaint m)"

text \<open>\<open>fcp && fcp > 3000\<close>: present, non-zero and above three seconds.\<close>

definition slowPaint :: "PagePerformanceMetrics option \<Rightarrow> bool" where
  "slowPaint pm = (case fcp_of pm of None \<Rightarrow> False | Some t \<Rightarrow> t \<noteq> 0 \<and> t > 3000)"

text \<open>The callback of the \<open>reduce\<close> that totals the accessibility penalty.\<close>

definition addPenalty :: "nat \<Rightarrow> AccessibilityIssue \<Rightarrow> nat" where
  "addPenalty penalty issue =
     (case ai_severity issue of
        High \<Rightarrow> penalty + ai_count issue * 10
      | Medium \<Rightarrow> penalty + ai_count issue * 5
      | Low \<Rightarrow> penalty + ai_count issue * 2)"

text \<open>\<open>s.replace('-', ' ')\<close> replaces the first hyphen only.\<close>

fun replace_first_hyphen :: "string \<Rightarrow> string" where
  "replace_first_hyphen [] = []"
| "replace_first_hyphen (c # cs) =
     (if c = CHR ''-'' then CHR '' '' # cs else c # replace_first_hyphen cs)"

text \<open>
  \<open>assessPageHealth\<close> at clock reading \<open>now\<close> (milliseconds) and ISO time \<open>isoNow\<close>. All
  the quantities added and subtracted are whole numbers, on which \<open>Math.round\<close> is the
  identity.
\<close>

definition assessPageHealth :: "int \<Rightarrow> string \<Rightarrow> PageHealthScorer \<Rightarrow> ScoredPage \<Rightarrow> PageHealthReport" where
  "assessPageHealth now isoNow scorer page =
     (let performanceMetrics = capturePerformanceMetrics page;
          recentErrors = filter (\<lambda>e. now - oce_timestamp e < 5000) (sc_consoleErrors scorer);
          errorPenalty = int (length recentErrors) * 10;
          hasErrors = length recentErrors > 0;
          recentFailures = filter (\<lambda>f. now - onf_timestamp f < 5000) (sc_networkFailures scorer);
          failurePenalty = int (length recentFailures) * 15;
          hasFailures = length recentFailures > 0;
          slow = slowPaint performanceMetrics;
          accessibilityIssues = checkAccessibilityIssues page;
          hasIssues = length accessibilityIssues > 0;
          totalPenalty = int (foldl addPenalty 0 accessibilityIssues);
          score0 = 100 - (if hasErrors then errorPenalty else 0)
                       - (if hasFailures then failurePenalty else 0)
                       - (if slow then 20 else 0)
                       - (if hasIssues then totalPenalty else 0);
          score1 = max 0 score0
      in \<lparr> score = score1,
           issues =
             (if hasErrors
              then [string_of_nat (length recentErrors) @ '' console errors detected''] else []) @
             (if hasFailures
              then [string_of_nat (length recentFailures) @ '' network failures detected'']
              else []) @
             (if slow then [''Slow first contentful paint (>3s)''] else []) @
             (if hasIssues
              then map (\<lambda>issue. string_of_nat (ai_count issue) @ '' '' @
                                 replace_first_hyphen (ai_type issue) @ '' issues'')
                     accessibilityIssues
              else []),
           recommendations =
             (if hasErrors then [''Check console for JavaScript errors and warnings''] else []) @
             (if hasFailures then [''Review failed network requests and API endpoints''] else []) @
             (if slow then [''Optimize page loading performance and resource sizes''] else []) @
             (if hasIssues
              then [''Improve accessibility by adding missing labels and alt text''] else []),
           metrics =
             \<lparr> m_consoleErrors = length recentErrors,
               m_networkFailures = length recentFailures,
               m_firstContentfulPaint = fcp_of performanceMetrics,
               m_accessibilityIssues = foldl (\<lambda>total issue. total + ai_count issue) 0
                                         accessibilityIssues,
               m_performanceScore = (if slow then 100 - 20 else 100),
               m_errorScore = (if hasErrors then max 0 (100 - errorPenalty) else 100),
               m_accessibilityScore = (if hasIssues then max 0 (100 - totalPenalty) else 100) \<rparr>,
           report_url = sp_url page,
           report_timestamp = isoNow \<rparr>)"

section \<open>Periodic monitor\<close>

text \<open>
  \<open>startResourceMonitoring\<close> arms a timer that runs \<open>checkResourceLimits\<close> every five
  seconds. \<open>resourceMonitoring hosts g\<close> runs one check per host reading, in order, and
  stops at the first check that ends the process; it adds up the \<open>global.gc()\<close> calls.
\<close>

fun resourceMonitoring :: "Host list \<Rightarrow> ResourceGuard \<Rightarrow> (ResourceGuard \<times> nat) process" where
  "resourceMonitoring [] g = Running (g, 0)"
| "resourceMonitoring (host # hosts) g =
     (case checkResourceLimits host g of
        Exited code \<Rightarrow> Exited code
      | Running (g1, n) \<Rightarrow>
          (case resourceMonitoring hosts g1 of
             Exited code \<Rightarrow> Exited code
           | Running (g2, m) \<Rightarrow> Running (g2, n + m)))"

text \<open>The two conditions a check tests on a host reading.\<close>

definition runtimeExceeded :: "ResourceGuard \<Rightarrow> Host \<Rightarrow> bool" where
  "runtimeExceeded g host = (dateNow host - startTime (stats g) > maxRunTime (limits g))"

definition memoryExceeded :: "ResourceGuard \<Rightarrow> Host \<Rightarrow> bool" where
  "memoryExceeded g host =
     ((of_int (heapUsed host) :: rat) / 1024 / 1024 > of_int (maxMemoryMB (limits g)))"

section \<open>Evidence collector\<close>

record FailureInfo =
  fi_name :: string
  fi_error :: string
  fi_type :: "string option"

record ScreenshotEvidence =
  ss_path :: string
  ss_type :: string
  ss_captured :: bool
  ss_error :: "string option"

record DOMSnapshotEvidence =
  ds_path :: string
  ds_size :: nat
  ds_captured :: bool
  ds_error :: "string option"

record ConsoleErrorEntry =
  cee_type :: string
  cee_message :: "string option"
  cee_location :: "string option"
  cee_timestamp :: int
  cee_stack :: "string option"

record ConsoleErrorsEvidence =
  cev_count :: nat
  cev_errors :: "ConsoleErrorEntry list"
  cev_captured :: "bool option"
  cev_error :: "string option"

record NetworkFailureEntry =
  nfe_url :: "string option"
  nfe_status :: "int option"
  nfe_error :: "string option"
  nfe_timestamp :: int

record NetworkFailuresEvidence =
  nev_count :: nat
  nev_failures :: "NetworkFailureEntry list"
  nev_captured :: "bool option"
  nev_error :: "string option"

record NavigationEvidence =
  ne_domContentLoaded :: rat
  ne_loadComplete :: rat
  ne_redirectTime :: rat
  ne_dnsTime :: rat
  ne_connectTime :: rat
  ne_responseTime :: rat

record ResourceSummary =
  rs_total :: nat
  rs_byType :: "(string \<times> nat) list"
  rs_slowRequests :: "(string \<times> rat) list"

text \<open>
  The objects the in-browser scripts return are the evidence records without the
  \<open>captured\<close> and \<open>error\<close> fields; a \<open>null\<close> sub-object is \<open>None\<close>.
\<close>

record PerformancePayload =
  pme_navigation :: "NavigationEvidence option"
  pme_paint :: "(string \<times> rat) list"
  pme_resources :: ResourceSummary
  pme_memory :: "PageHeap option"
  pme_timestamp :: int

record PerformanceMetricsEvidence = PerformancePayload +
  pme_captured :: "bool option"
  pme_error :: "string option"

record StoragePayload =
  sse_localStorage :: "(string \<times> string) list"
  sse_sessionStorage :: "(string \<times> string) list"
  sse_cookies :: string

record StorageStateEvidence = StoragePayload +
  sse_captured :: "bool option"
  sse_error :: "string option"

record ElementInfo =
  el_tagName :: string
  el_role :: string
  el_ariaLabel :: "string option"
  el_ariaLabelledBy :: "string option"
  el_ariaDescribedBy :: "string option"
  el_tabIndex :: int
  el_hasText :: bool

record HeadingInfo =
  hd_level :: int
  hd_text :: string
  hd_hasId :: bool

record AccessibilityPayload =
  ae_interactiveElements :: "ElementInfo list"
  ae_headings :: "HeadingInfo list"
  ae_title :: string
  ae_lang :: string
  ae_hasSkipLink :: bool

record AccessibilityEvidence = AccessibilityPayload +
  ae_captured :: "bool option"
  ae_error :: "string option"

record EvidenceBundle =
  eb_id :: string
  eb_timestamp :: string
  eb_testName :: string
  eb_errorMessage :: string
  eb_url :: string
  eb_viewport :: "(int \<times> int) option"
  eb_userAgent :: string
  eb_screenshot :: "ScreenshotEvidence option"
  eb_domSnapshot :: "DOMSnapshotEvidence option"
  eb_consoleErrors :: "ConsoleErrorsEvidence option"
  eb_networkFailures :: "NetworkFailuresEvidence option"
  eb_performanceMetrics :: "PerformanceMetricsEvidence option"
  eb_localStorage :: "StorageStateEvidence option"
  eb_accessibility :: "AccessibilityEvidence option"

text \<open>What a file holds after a write: the image, the HTML text or the serialised value.\<close>

datatype file_content =
    Png
  | Html string
  | ConsoleJson ConsoleErrorsEvidence
  | NetworkJson NetworkFailuresEvidence
  | PerformanceJson PerformancePayload
  | StorageJson StoragePayload
  | AccessibilityJson AccessibilityPayload
  | ManifestJson EvidenceBundle

text \<open>The entries of the untyped \<open>_consoleErrors\<close> and \<open>_networkFailures\<close> page properties.\<close>

record RawConsoleError =
  rce_type :: "string option"
  rce_text :: "string option"
  rce_message :: "string option"
  rce_location :: "string option"
  rce_timestamp :: "int option"
  rce_stackTrace :: "string option"

record RawNetworkFailure =
  rnf_url :: "string option"
  rnf_status :: "int option"
  rnf_failure :: "string option"
  rnf_timestamp :: "int option"

text \<open>
  The page session as the collector uses it: each driver call either returns or throws.
  \<open>pg_screenshot\<close> is \<open>None\<close> when \<open>page.screenshot\<close> wrote the image and the thrown value
  otherwise.
\<close>

record CollectorPage =
  pg_url :: string
  pg_viewportSize :: "(int \<times> int) option"
  pg_userAgent :: "thrown + string"
  pg_screenshot :: "thrown option"
  pg_documentHTML :: "thrown + string"
  pg_consoleErrors :: "RawConsoleError list option"
  pg_networkFailures :: "RawNetworkFailure list option"
  pg_performance :: "thrown + PerformancePayload"
  pg_storage :: "thrown + StoragePayload"
  pg_accessibility :: "thrown + AccessibilityPayload"

text \<open>
  The file system: for a path, \<open>None\<close> when \<open>fs.mkdir\<close> (or \<open>fs.writeFile\<close>) succeeds
  there and the thrown value otherwise.
\<close>

record Disk =
  mkdir_throws :: "string \<Rightarrow> thrown option"
  writeFile_throws :: "string \<Rightarrow> thrown option"

text \<open>
  The clock readings of one \<open>collect\<close> call: the ISO time used for the identifier, the
  ISO time stored in the bundle, and \<open>Date.now()\<close>.
\<close>

record CollectorClock =
  ck_idTime :: string
  ck_bundleTime :: string
  ck_nowMs :: int

datatype 'a settled = Fulfilled 'a | Rejected thrown

text \<open>\<open>error instanceof Error ? error.message : String(error)\<close>.\<close>

definition message_of :: "thrown \<Rightarrow> string" where
  "message_of error = (case error of Error m \<Rightarrow> m | Undefined \<Rightarrow> ''undefined'')"

text \<open>\<open>path.join\<close> of a directory and a plain file name.\<close>

definition path_join :: "string \<Rightarrow> string \<Rightarrow> string" where
  "path_join dir file = dir @ ''/'' @ file"

definition is_alnum :: "char \<Rightarrow> bool" where
  "is_alnum c =
     (let n = (of_char c :: nat)
      in (97 \<le> n \<and> n \<le> 122) \<or> (65 \<le> n \<and> n \<le> 90) \<or> (48 \<le> n \<and> n \<le> 57))"

definition to_lower :: "char \<Rightarrow> char" where
  "to_lower c =
     (let n = (of_char c :: nat) in if 65 \<le> n \<and> n \<le> 90 then char_of (n + 32) else c)"

definition generateEvidenceId :: "string \<Rightarrow> FailureInfo \<Rightarrow> string" where
  "generateEvidenceId isoTime failure =
     (let timestamp = map (\<lambda>c. if c = CHR '':'' \<or> c = CHR ''.'' then CHR ''-'' else c) isoTime;
          testName = map to_lower
                       (map (\<lambda>c. if is_alnum c then c else CHR ''-'') (fi_name failure))
      in timestamp @ ''-'' @ testName)"

text \<open>\<open>a || b\<close> on optional strings: absent and empty strings are falsy.\<close>

definition str_or :: "string option \<Rightarrow> string option \<Rightarrow> string option" where
  "str_or a b = (case a of None \<Rightarrow> b | Some s \<Rightarrow> if s = [] then b else Some s)"

text \<open>
  Each capture returns its evidence record and the files it left on disk. Its whole body
  is inside \<open>try\<close>, so a thrown value ends in the \<open>catch\<close> branch's record.
\<close>

definition captureScreenshot ::
  "CollectorPage \<Rightarrow> string \<Rightarrow> ScreenshotEvidence \<times> (string \<times> file_content) list" where
  "captureScreenshot page evidenceDir =
     (let screenshotPath = path_join evidenceDir ''failure-screenshot.png''
      in case pg_screenshot page of
           None \<Rightarrow>
             (\<lparr> ss_path = screenshotPath, ss_type = ''full-page'', ss_captured = True,
                ss_error = None \<rparr>,
              [(screenshotPath, Png)])
         | Some error \<Rightarrow>
             (\<lparr> ss_path = [], ss_type = [], ss_captured = False,
                ss_error = Some (message_of error) \<rparr>, []))"

definition domSnapshotFailed :: "thrown \<Rightarrow> DOMSnapshotEvidence" where
  "domSnapshotFailed error =
     \<lparr> ds_path = [], ds_size = 0, ds_captured = False, ds_error = Some (message_of error) \<rparr>"

definition captureDOMSnapshot ::
  "CollectorPage \<Rightarrow> Disk \<Rightarrow> string \<Rightarrow> DOMSnapshotEvidence \<times> (string \<times> file_content) list" where
  "captureDOMSnapshot page disk evidenceDir =
     (let snapshotPath = path_join evidenceDir ''dom-snapshot.html''
      in case pg_documentHTML page of
           Inl error \<Rightarrow> (domSnapshotFailed error, [])
         | Inr cleanHTML \<Rightarrow>
             (case writeFile_throws disk snapshotPath of
                Some error \<Rightarrow> (domSnapshotFailed error, [])
              | None \<Rightarrow>
                  (\<lparr> ds_path = snapshotPath, ds_size = length cleanHTML, ds_captured = True,
                     ds_error = None \<rparr>,
                   [(snapshotPath, Html cleanHTML)])))"

definition consoleErrorEntry :: "int \<Rightarrow> RawConsoleError \<Rightarrow> ConsoleErrorEntry" where
  "consoleErrorEntry now error =
     \<lparr> cee_type = (case str_or (rce_type error) (Some ''error'') of
                      Some t \<Rightarrow> t | None \<Rightarrow> ''error''),
       cee_message = str_or (rce_text error) (rce_message error),
       cee_location = rce_location error,
       cee_timestamp = or_else (rce_timestamp error) now,
       cee_stack = rce_stackTrace error \<rparr>"

definition captureConsoleErrors ::
  "CollectorPage \<Rightarrow> Disk \<Rightarrow> int \<Rightarrow> string
     \<Rightarrow> ConsoleErrorsEvidence \<times> (string \<times> file_content) list" where
  "captureConsoleErrors page disk now evidenceDir =
     (let errors = (case pg_consoleErrors page of None \<Rightarrow> [] | Some es \<Rightarrow> es);
          errorData = \<lparr> cev_count = length errors,
                        cev_errors = map (consoleErrorEntry now) errors,
                        cev_captured = None, cev_error = None \<rparr>;
          file = path_join evidenceDir ''console-errors.json''
      in case writeFile_throws disk file of
           None \<Rightarrow> (errorData, [(file, ConsoleJson errorData)])
         | Some error \<Rightarrow>
             (\<lparr> cev_count = 0, cev_errors = [], cev_captured = Some False,
                cev_error = Some (message_of error) \<rparr>, []))"

definition networkFailureEntry :: "int \<Rightarrow> RawNetworkFailure \<Rightarrow> NetworkFailureEntry" where
  "networkFailureEntry now failure =
     \<lparr> nfe_url = rnf_url failure,
       nfe_status = rnf_status failure,
       nfe_error = rnf_failure failure,
       nfe_timestamp = or_else (rnf_timestamp failure) now \<rparr>"

definition captureNetworkFailures ::
  "CollectorPage \<Rightarrow> Disk \<Rightarrow> int \<Rightarrow> string
     \<Rightarrow> NetworkFailuresEvidence \<times> (string \<times> file_content) list" where
  "captureNetworkFailures page disk now evidenceDir =
     (let pageFailures = (case pg_networkFailures page of None \<Rightarrow> [] | Some fs \<Rightarrow> fs);
          networkData = \<lparr> nev_count = length pageFailures,
                          nev_failures = map (networkFailureEntry now) pageFailures,
                          nev_captured = None, nev_error = None \<rparr>;
          file = path_join evidenceDir ''network-failures.json''
      in case writeFile_throws disk file of
           None \<Rightarrow> (networkData, [(file, NetworkJson networkData)])
         | Some error \<Rightarrow>
             (\<lparr> nev_count = 0, nev_failures = [], nev_captured = Some False,
                nev_error = Some (message_of error) \<rparr>, []))"

definition performanceFailed :: "int \<Rightarrow> thrown \<Rightarrow> PerformanceMetricsEvidence" where
  "performanceFailed now error =
     \<lparr> pme_navigation = None, pme_paint = [],
       pme_resources = \<lparr> rs_total = 0, rs_byType = [], rs_slowRequests = [] \<rparr>,
       pme_memory = None, pme_timestamp = now,
       pme_captured = Some False, pme_error = Some (message_of error) \<rparr>"

definition capturePerformanceEvidence ::
  "CollectorPage \<Rightarrow> Disk \<Rightarrow> int \<Rightarrow> string
     \<Rightarrow> PerformanceMetricsEvidence \<times> (string \<times> file_content) list" where
  "capturePerformanceEvidence page disk now evidenceDir =
     (let file = path_join evidenceDir ''performance-metrics.json''
      in case pg_performance page of
           Inl error \<Rightarrow> (performanceFailed now error, [])
         | Inr pageMetrics \<Rightarrow>
             (case writeFile_throws disk file of
                Some error \<Rightarrow> (performanceFailed now error, [])
              | None \<Rightarrow>
                  (PerformancePayload.extend pageMetrics
                     (PerformanceMetricsEvidence.fields None None),
                   [(file, PerformanceJson pageMetrics)])))"

definition storageFailed :: "thrown \<Rightarrow> StorageStateEvidence" where
  "storageFailed error =
     \<lparr> sse_localStorage = [], sse_sessionStorage = [], sse_cookies = [],
       sse_captured = Some False, sse_error = Some (message_of error) \<rparr>"

definition captureLocalStorageState ::
  "CollectorPage \<Rightarrow> Disk \<Rightarrow> string \<Rightarrow> StorageStateEvidence \<times> (string \<times> file_content) list" where
  "captureLocalStorageState page disk evidenceDir =
     (let file = path_join evidenceDir ''storage-state.json''
      in case pg_storage page of
           Inl error \<Rightarrow> (storageFailed error, [])
         | Inr storageState \<Rightarrow>
             (case writeFile_throws disk file of
                Some error \<Rightarrow> (storageFailed error, [])
              | None \<Rightarrow>
                  (StoragePayload.extend storageState (StorageStateEvidence.fields None None),
                   [(file, StorageJson storageState)])))"

definition accessibilityFailed :: "thrown \<Rightarrow> AccessibilityEvidence" where
  "accessibilityFailed error =
     \<lparr> ae_interactiveElements = [], ae_headings = [], ae_title = [], ae_lang = [],
       ae_hasSkipLink = False,
       ae_captured = Some False, ae_error = Some (message_of error) \<rparr>"

definition captureAccessibilityTree ::
  "CollectorPage \<Rightarrow> Disk \<Rightarrow> string \<Rightarrow> AccessibilityEvidence \<times> (string \<times> file_content) list" where
  "captureAccessibilityTree page disk evidenceDir =
     (let file = path_join evidenceDir ''accessibility-tree.json''
      in case pg_accessibility page of
           Inl error \<Rightarrow> (accessibilityFailed error, [])
         | Inr a11ySnapshot \<Rightarrow>
             (case writeFile_throws disk file of
                Some error \<Rightarrow> (accessibilityFailed error, [])
              | None \<Rightarrow>
                  (AccessibilityPayload.extend a11ySnapshot
                     (AccessibilityEvidence.fields None None),
                   [(file, AccessibilityJson a11ySnapshot)])))"

text \<open>
  The \<open>forEach\<close> over the settled results stores a fulfilled value in its bundle field and
  leaves the field absent for a rejected one.
\<close>

definition settled_value :: "'a settled \<Rightarrow> 'a option" where
  "settled_value result = (case result of Fulfilled v \<Rightarrow> Some v | Rejected reason \<Rightarrow> None)"

text \<open>
  \<open>collect\<close> returns the bundle or the value it throws, together with the files on disk
  when it ends. \<open>Promise.allSettled\<close> waits for all seven captures; they write to seven
  different files, listed here in the order of the array. A capture's promise always
  fulfils, because the capture catches whatever its body throws.
\<close>

definition collect ::
  "string \<Rightarrow> CollectorClock \<Rightarrow> Disk \<Rightarrow> CollectorPage \<Rightarrow> FailureInfo
     \<Rightarrow> (thrown + EvidenceBundle) \<times> (string \<times> file_content) list" where
  "collect baseDir clock disk page failure =
     (let evidenceId = generateEvidenceId (ck_idTime clock) failure;
          evidenceDir = path_join baseDir evidenceId
      in case mkdir_throws disk evidenceDir of
           Some error \<Rightarrow> (Inl error, [])
         | None \<Rightarrow>
             (case pg_userAgent page of
                Inl error \<Rightarrow> (Inl error, [])
              | Inr userAgent \<Rightarrow>
                  (let c1 = captureScreenshot page evidenceDir;
                       c2 = captureDOMSnapshot page disk evidenceDir;
                       c3 = captureConsoleErrors page disk (ck_nowMs clock) evidenceDir;
                       c4 = captureNetworkFailures page disk (ck_nowMs clock) evidenceDir;
                       c5 = capturePerformanceEvidence page disk (ck_nowMs clock) evidenceDir;
                       c6 = captureLocalStorageState page disk evidenceDir;
                       c7 = captureAccessibilityTree page disk evidenceDir;
                       evidence =
                         \<lparr> eb_id = evidenceId,
                           eb_timestamp = ck_bundleTime clock,
                           eb_testName = fi_name failure,
                           eb_errorMessage = fi_error failure,
                           eb_url = pg_url page,
                           eb_viewport = pg_viewportSize page,
                           eb_userAgent = userAgent,
                           eb_screenshot = settled_value (Fulfilled (fst c1)),
                           eb_domSnapshot = settled_value (Fulfilled (fst c2)),
                           eb_consoleErrors = settled_value (Fulfilled (fst c3)),
                           eb_networkFailures = settled_value (Fulfilled (fst c4)),
                           eb_performanceMetrics = settled_value (Fulfilled (fst c5)),
                           eb_localStorage = settled_value (Fulfilled (fst c6)),
                           eb_accessibility = settled_value (Fulfilled (fst c7)) \<rparr>;
                       files = snd c1 @ snd c2 @ snd c3 @ snd c4 @ snd c5 @ snd c6 @ snd c7;
                       manifest = path_join evidenceDir ''evidence.json''
                   in case writeFile_throws disk manifest of
                        Some error \<Rightarrow> (Inl error, files)
                      | None \<Rightarrow> (Inr evidence, files @ [(manifest, ManifestJson evidence)]))))"

section \<open>Statements of the specification\<close>

text \<open>
  The accessibility penalty in the specification's words: 10 per occurrence of a
  high-severity issue, 5 per medium, 2 per low.
\<close>

definition spec_accessibility_penalty :: "AccessibilityIssue list \<Rightarrow> int" where
  "spec_accessibility_penalty found =
     (\<Sum>issue\<leftarrow>found. int (ai_count issue) *
        (case ai_severity issue of High \<Rightarrow> 10 | Medium \<Rightarrow> 5 | Low \<Rightarrow> 2))"

text \<open>
  The score in the specification's words: 100 minus 10 per recent console error, 15 per
  recent network failure, 20 for a slow first contentful paint and the accessibility
  penalty, clamped to the range from 0 to 100.
\<close>

definition spec_score :: "nat \<Rightarrow> nat \<Rightarrow> bool \<Rightarrow> AccessibilityIssue list \<Rightarrow> int" where
  "spec_score nErrors nFailures slow found =
     max 0 (min 100 (100 - 10 * int nErrors - 15 * int nFailures - (if slow then 20 else 0)
                       - spec_accessibility_penalty found))"

text \<open>The directory \<open>collect\<close> creates for a bundle (its local \<open>evidenceDir\<close>).\<close>

definition bundleDir :: "string \<Rightarrow> CollectorClock \<Rightarrow> FailureInfo \<Rightarrow> string" where
  "bundleDir baseDir clock failure =
     path_join baseDir (generateEvidenceId (ck_idTime clock) failure)"

text \<open>
  "The other six sub-captures succeed": each driver call they make returns and each file
  they write is written.
\<close>

definition otherSixSucceed :: "Disk \<Rightarrow> CollectorPage \<Rightarrow> string \<Rightarrow> bool" where
  "otherSixSucceed disk page dir =
     (\<not> isl (pg_documentHTML page) \<and>
      writeFile_throws disk (path_join dir ''dom-snapshot.html'') = None \<and>
      writeFile_throws disk (path_join dir ''console-errors.json'') = None \<and>
      writeFile_throws disk (path_join dir ''network-failures.json'') = None \<and>
      \<not> isl (pg_performance page) \<and>
      writeFile_throws disk (path_join dir ''performance-metrics.json'') = None \<and>
      \<not> isl (pg_storage page) \<and>
      writeFile_throws disk (path_join dir ''storage-state.json'') = None \<and>
      \<not> isl (pg_accessibility page) \<and>
      writeFile_throws disk (path_join dir ''accessibility-tree.json'') = None)"

section \<open>Concrete inputs\<close>

text \<open>A guard built with the defaults at clock reading 1700000000000 and a 50 MB heap.\<close>

definition freshGuard :: ResourceGuard where
  "freshGuard = new_ResourceGuard ''smoke'' noCustomLimits 1700000000000 50000000"

text \<open>Five failures recorded one second apart, right after construction.\<close>

definition openedEarly :: ResourceGuard where
  "openedEarly =
     recordCircuitBreakerFailure 1700000005000 (recordCircuitBreakerFailure 1700000004000
       (recordCircuitBreakerFailure 1700000003000 (recordCircuitBreakerFailure 1700000002000
         (recordCircuitBreakerFailure 1700000001000 freshGuard))))"

text \<open>Five failures recorded nine minutes and fifty seconds after construction.\<close>

definition openedLate :: ResourceGuard where
  "openedLate =
     recordCircuitBreakerFailure 1700000590000 (recordCircuitBreakerFailure 1700000590000
       (recordCircuitBreakerFailure 1700000590000 (recordCircuitBreakerFailure 1700000590000
         (recordCircuitBreakerFailure 1700000590000 freshGuard))))"

text \<open>A host reading \<open>ms\<close> milliseconds after that construction, with the given heap.\<close>

definition hostAfter :: "int \<Rightarrow> int \<Rightarrow> Host" where
  "hostAfter ms heap = \<lparr> dateNow = 1700000000000 + ms, heapUsed = heap, gcExposed = True \<rparr>"

text \<open>600 MB, above the default limit of 512 MB.\<close>

definition heavyHeap :: int where
  "heavyHeap = 600 * 1024 * 1024"

definition failingOperation :: "int \<Rightarrow> thrown + unit" where
  "failingOperation k = Inl (Error ''element is not attached'')"

definition quietScorer :: PageHealthScorer where
  "quietScorer = \<lparr> sc_consoleErrors = [], sc_networkFailures = [], sc_startTime = 1700000000000 \<rparr>"

definition fastCleanPage :: ScoredPage where
  "fastCleanPage =
     \<lparr> sp_url = ''http://localhost:3000/dashboard'',
       sp_performance = Inr \<lparr> ppm_domContentLoaded = Some 12, ppm_loadComplete = Some 3,
                              ppm_firstPaint = Some 900, ppm_firstContentfulPaint = Some 1200,
                              ppm_memory = None, ppm_resourceCount = 14,
                              ppm_timestamp = 1700000001000 \<rparr>,
       sp_accessibility = Inr [] \<rparr>"

text \<open>
  A scorer that has seen two console errors and one failed request in the last five
  seconds before 1700000002000, and one console error ten seconds earlier.
\<close>

definition noisyScorer :: PageHealthScorer where
  "noisyScorer =
     \<lparr> sc_consoleErrors =
         [\<lparr> oce_type = ''error'', oce_text = ''old'', oce_timestamp = 1699999990000 \<rparr>,
          \<lparr> oce_type = ''error'', oce_text = ''first'', oce_timestamp = 1700000000500 \<rparr>,
          \<lparr> oce_type = ''warning'', oce_text = ''second'', oce_timestamp = 1700000001500 \<rparr>],
       sc_networkFailures =
         [\<lparr> onf_url = ''http://localhost:3000/api/items'', onf_status = Some 500,
            onf_failure = None, onf_timestamp = 1700000001000 \<rparr>],
       sc_startTime = 1699999980000 \<rparr>"

text \<open>
  A page that paints after nine seconds and has three inputs without a label (one
  high-severity issue with count 3).
\<close>

definition slowUnlabelledPage :: ScoredPage where
  "slowUnlabelledPage =
     \<lparr> sp_url = ''http://localhost:3000/settings'',
       sp_performance = Inr \<lparr> ppm_domContentLoaded = Some 40, ppm_loadComplete = Some 9,
                              ppm_firstPaint = Some 8800, ppm_firstContentfulPaint = Some 9000,
                              ppm_memory = None, ppm_resourceCount = 60,
                              ppm_timestamp = 1700000001000 \<rparr>,
       sp_accessibility =
         Inr [\<lparr> ai_type = ''missing-form-labels'', ai_count = 3, ai_elements = None,
                ai_severity = High \<rparr>] \<rparr>"

definition workingDisk :: Disk where
  "workingDisk = \<lparr> mkdir_throws = (\<lambda>path. None), writeFile_throws = (\<lambda>path. None) \<rparr>"

definition sampleClock :: CollectorClock where
  "sampleClock = \<lparr> ck_idTime = ''2024-01-01T00:00:00.000Z'',
                    ck_bundleTime = ''2024-01-01T00:00:00.001Z'',
                    ck_nowMs = 1704067200001 \<rparr>"

definition sampleFailure :: FailureInfo where
  "sampleFailure = \<lparr> fi_name = ''Login works'', fi_error = ''expected true'', fi_type = None \<rparr>"

text \<open>A page whose browser has gone: every driver call throws.\<close>

definition closedPage :: CollectorPage where
  "closedPage =
     \<lparr> pg_url = ''http://localhost:3000/login'',
       pg_viewportSize = None,
       pg_userAgent = Inl (Error ''Target closed''),
       pg_screenshot = Some (Error ''Target closed''),
       pg_documentHTML = Inl (Error ''Target closed''),
       pg_consoleErrors = None,
       pg_networkFailures = None,
       pg_performance = Inl (Error ''Target closed''),
       pg_storage = Inl (Error ''Target closed''),
       pg_accessibility = Inl (Error ''Target closed'') \<rparr>"

section \<open>Properties of the failure classifier\<close>

lemma scored_nonneg: "0 \<le> w \<Longrightarrow> 0 \<le> fst acc \<Longrightarrow> 0 \<le> fst (scored c w r acc)"
  by (simp add: scored_def)

lemma flake_bounds:
  "0 \<le> confidence (classifyAsTestFlake ev) \<and> confidence (classifyAsTestFlake ev) \<le> 95/100"
  by (simp add: classifyAsTestFlake_def Let_def scored_nonneg)

lemma regression_bounds:
  "0 \<le> confidence (classifyAsAppRegression ev) \<and>
   confidence (classifyAsAppRegression ev) \<le> 95/100"
  by (simp add: classifyAsAppRegression_def Let_def scored_nonneg)

lemma environment_bounds:
  "0 \<le> confidence (classifyAsEnvironmentIssue ev) \<and>
   confidence (classifyAsEnvironmentIssue ev) \<le> 95/100"
  by (simp add: classifyAsEnvironmentIssue_def Let_def scored_nonneg)

lemma data_bounds:
  "0 \<le> confidence (classifyAsDataProblem ev) \<and> confidence (classifyAsDataProblem ev) \<le> 95/100"
  by (simp add: classifyAsDataProblem_def Let_def scored_nonneg)

lemma better_cases: "better a b = a \<or> better a b = b"
  by (simp add: better_def)

lemma heuristic_types:
  "cl_type (classifyAsTestFlake ev) = TestFlake"
  "cl_type (classifyAsAppRegression ev) = AppRegression"
  "cl_type (classifyAsEnvironmentIssue ev) = EnvironmentIssue"
  "cl_type (classifyAsDataProblem ev) = DataProblem"
  by (simp_all add: classifyAsTestFlake_def classifyAsAppRegression_def
        classifyAsEnvironmentIssue_def classifyAsDataProblem_def Let_def)

lemma classify_all:
  "allClassifications (classify now ev) =
     [classifyAsTestFlake ev, classifyAsAppRegression ev,
      classifyAsEnvironmentIssue ev, classifyAsDataProblem ev]"
  by (simp add: classify_def Let_def Classification.extend_def FullClassification.fields_def)

lemma classify_winner:
  "confidence (classify now ev) =
     confidence (better (better (better (classifyAsTestFlake ev) (classifyAsAppRegression ev))
                           (classifyAsEnvironmentIssue ev)) (classifyAsDataProblem ev))"
  by (simp add: classify_def Let_def Classification.extend_def FullClassification.fields_def)

lemma winner_bounds:
  "0 \<le> confidence (classify now ev) \<and> confidence (classify now ev) \<le> 95/100"
proof -
  let ?w = "better (better (better (classifyAsTestFlake ev) (classifyAsAppRegression ev))
                     (classifyAsEnvironmentIssue ev)) (classifyAsDataProblem ev)"
  have "?w = classifyAsTestFlake ev \<or> ?w = classifyAsAppRegression ev \<or>
        ?w = classifyAsEnvironmentIssue ev \<or> ?w = classifyAsDataProblem ev"
    by (metis better_cases)
  then show ?thesis
    unfolding classify_winner
    using flake_bounds regression_bounds environment_bounds data_bounds by metis
qed

text \<open>
  Claim C1. For every evidence record, \<open>classify\<close> returns the four heuristic
  classifications, of types TestFlake, AppRegression, EnvironmentIssue and DataProblem in
  that order, each with a confidence between 0 and 0.95, and the confidence of the winning
  classification is between 0 and 0.95 as well, however many scoring conditions match.
\<close>

theorem classify_confidence_bounded:
  "list_all (\<lambda>c. 0 \<le> confidence c \<and> confidence c \<le> 95/100)
     (allClassifications (classify now ev)) \<and>
   map cl_type (allClassifications (classify now ev)) =
     [TestFlake, AppRegression, EnvironmentIssue, DataProblem] \<and>
   0 \<le> confidence (classify now ev) \<and> confidence (classify now ev) \<le> 95/100"
  using flake_bounds [of ev] regression_bounds [of ev] environment_bounds [of ev]
    data_bounds [of ev] winner_bounds [of now ev]
  by (simp add: classify_all heuristic_types)

lemmas classifier_defs =
  classify_def Let_def Classification.extend_def FullClassification.fields_def
  classifyAsTestFlake_def classifyAsAppRegression_def classifyAsEnvironmentIssue_def
  classifyAsDataProblem_def scored_def opt_includes_def opt_some_def opt_filter_def
  better_def appErrors_def serverErrors_def clientErrors_def highMemory_def
  isObviousAppFix_def

text \<open>
  Claim C2. The claim expects the evidence whose only signal is the error message
  \<open>Timeout 30000ms exceeded waiting for selector\<close> to be classified as TestFlake with
  confidence 0.6 and a timeout reason. The code searches the message for the lower-case
  word \<open>timeout\<close>, which this message (capital T) does not contain: all four heuristics
  score 0, TestFlake wins only as the first of four equal candidates, with confidence 0
  and no reason at all.
\<close>

theorem capitalised_timeout_scores_zero:
  "(let r = classify now
              \<lparr> errorMessage = Some ''Timeout 30000ms exceeded waiting for selector'',
                networkFailures = None, consoleErrors = None, performanceMetrics = None,
                screenshot = None, domSnapshot = None, ev_url = u, ev_timestamp = t \<rparr>
    in cl_type r = TestFlake \<and> confidence r = 0 \<and> reasons r = [] \<and>
       map confidence (allClassifications r) = [0, 0, 0, 0])"
  by (simp add: classifier_defs)

text \<open>
  Claim C7. For the evidence whose only signal is one network failure with status 401,
  \<open>classify\<close> returns DataProblem with confidence 0.7; the AppRegression heuristic scores
  the same evidence 0.6 through its 4xx rule and loses, the other two score 0.
\<close>

theorem unauthorized_is_data_problem:
  "(let r = classify now
              \<lparr> errorMessage = None,
                networkFailures = Some [\<lparr> nf_url = u, nf_status = 401, nf_statusText = st,
                                          nf_failure = None \<rparr>],
                consoleErrors = None, performanceMetrics = None,
                screenshot = None, domSnapshot = None, ev_url = u', ev_timestamp = t \<rparr>
    in cl_type r = DataProblem \<and> confidence r = 7/10 \<and>
       reasons r = [''Authentication failure detected''] \<and>
       map confidence (allClassifications r) = [0, 6/10, 0, 7/10])"
  by (simp add: classifier_defs)

text \<open>
  Claim C8 as stated fails: an AppRegression classification can be fixable. A console
  error that is a \<open>Cannot read property\<close> TypeError inside a React component scores
  0.7 + 0.5, above 0.8, and is an obvious app fix.
\<close>

theorem app_regression_fixable_counterexample:
  "(let c = classifyAsAppRegression
              \<lparr> errorMessage = None, networkFailures = None,
                consoleErrors = Some [\<lparr> ce_type = ''error'',
                  ce_text = ''TypeError: Cannot read property of undefined in React component'',
                  ce_location = None, ce_timestamp = 0 \<rparr>],
                performanceMetrics = None, screenshot = None, domSnapshot = None,
                ev_url = ''http://localhost:3000/invoices'',
                ev_timestamp = ''2024-01-01T00:00:00.000Z'' \<rparr>
    in cl_type c = AppRegression \<and> fixable c)"
  by (simp add: classifier_defs)

text \<open>
  Claim C8, amended. For every evidence record the TestFlake classification is fixable,
  the EnvironmentIssue and DataProblem classifications are not, and the AppRegression
  classification is fixable exactly when its confidence exceeds 0.8 and the evidence shows
  an obvious fix (a \<open>Cannot read property\<close> console error, or a 404 on a URL containing
  \<open>/api/\<close>).
\<close>

theorem fixable_by_type:
  "fixable (classifyAsTestFlake ev) \<and>
   \<not> fixable (classifyAsEnvironmentIssue ev) \<and>
   \<not> fixable (classifyAsDataProblem ev) \<and>
   fixable (classifyAsAppRegression ev) =
     (confidence (classifyAsAppRegression ev) > 8/10 \<and> isObviousAppFix ev)"
  by (simp add: classifyAsTestFlake_def classifyAsAppRegression_def
        classifyAsEnvironmentIssue_def classifyAsDataProblem_def Let_def)

section \<open>Properties of the resource guard\<close>

lemmas fresh_guard_defs =
  freshGuard_def new_ResourceGuard_def defaultLimits_def noCustomLimits_def overridden_def
  hostAfter_def

lemma five_failures_breaker:
  "circuitBreaker
     (recordCircuitBreakerFailure t5 (recordCircuitBreakerFailure t4
       (recordCircuitBreakerFailure t3 (recordCircuitBreakerFailure t2
         (recordCircuitBreakerFailure t1 (new_ResourceGuard suiteType customLimits t0 heap0))))))
   = \<lparr> failures = 5, threshold = 5, timeout = 60000, state = OPEN, lastFailure = Some t5 \<rparr>"
  by (simp add: recordCircuitBreakerFailure_def new_ResourceGuard_def Let_def)

lemma four_failures_breaker:
  "circuitBreaker
     (recordCircuitBreakerFailure t4
       (recordCircuitBreakerFailure t3 (recordCircuitBreakerFailure t2
         (recordCircuitBreakerFailure t1 (new_ResourceGuard suiteType customLimits t0 heap0)))))
   = \<lparr> failures = 4, threshold = 5, timeout = 60000, state = CLOSED, lastFailure = None \<rparr>"
  by (simp add: recordCircuitBreakerFailure_def new_ResourceGuard_def Let_def)

lemma check_keeps_running:
  assumes "\<not> runtimeExceeded g host"
      and "\<not> memoryExceeded g host \<or> resourceWarnings (stats g) < 3"
  shows "\<exists>g1 n. checkResourceLimits host g = Running (g1, n) \<and>
           circuitBreaker g1 = circuitBreaker (checkCircuitBreaker (dateNow host) g)"
  using assms
  by (auto simp add: checkResourceLimits_def runtimeExceeded_def memoryExceeded_def Let_def
        checkCircuitBreaker_def handleResourceLimit_def emergencyShutdown_def)

text \<open>
  Claim C3 as stated fails: the monitor check tests the runtime limit first and ends the
  process when it is exceeded, before it looks at the breaker. A default guard whose
  breaker opened 9 min 50 s after construction is checked 65 s later, with the cooldown
  elapsed: the check exits with code 1 instead of moving the breaker to HALF_OPEN.
\<close>

theorem cooldown_check_preempted_counterexample:
  "state (circuitBreaker openedLate) = OPEN \<and>
   lastFailure (circuitBreaker openedLate) = Some 1700000590000 \<and>
   dateNow (hostAfter 655000 50000000) - 1700000590000 > timeout (circuitBreaker openedLate) \<and>
   checkResourceLimits (hostAfter 655000 50000000) openedLate = Exited 1"
  by (simp add: fresh_guard_defs openedLate_def recordCircuitBreakerFailure_def Let_def
        checkResourceLimits_def handleResourceLimit_def emergencyShutdown_def)

text \<open>
  Claim C3, amended. Start from a fresh guard and record five breaker failures with no
  success in between: after the fourth \<open>canProceed\<close> still holds, after the fifth the
  state is OPEN and \<open>canProceed\<close> is false. Let \<open>g\<close> be the guard at a later monitor
  check, its breaker untouched since. If the fifth failure was stamped with a non-zero
  clock reading, more than 60 s have passed since, and the check is one that reaches the
  breaker (the runtime limit is not exceeded, and the memory limit is not exceeded or
  fewer than three warnings were counted), then the check keeps the process running and
  leaves the breaker HALF_OPEN; one \<open>recordCircuitBreakerSuccess\<close> then closes it and
  resets the failure counter to 0.
\<close>

theorem circuit_breaker_cycle:
  assumes breaker:
        "circuitBreaker g =
           circuitBreaker
             (recordCircuitBreakerFailure t5 (recordCircuitBreakerFailure t4
               (recordCircuitBreakerFailure t3 (recordCircuitBreakerFailure t2
                 (recordCircuitBreakerFailure t1
                   (new_ResourceGuard suiteType customLimits t0 heap0))))))"
      and clock: "t5 \<noteq> 0"
      and cooldown: "dateNow host - t5 > 60000"
      and runtime: "\<not> runtimeExceeded g host"
      and memory: "\<not> memoryExceeded g host \<or> resourceWarnings (stats g) < 3"
  shows "canProceed
           (recordCircuitBreakerFailure t4
             (recordCircuitBreakerFailure t3 (recordCircuitBreakerFailure t2
               (recordCircuitBreakerFailure t1
                 (new_ResourceGuard suiteType customLimits t0 heap0))))) \<and>
         state (circuitBreaker g) = OPEN \<and> \<not> canProceed g \<and>
         (\<exists>g1 n. checkResourceLimits host g = Running (g1, n) \<and>
                 state (circuitBreaker g1) = HALF_OPEN \<and>
                 state (circuitBreaker (recordCircuitBreakerSuccess g1)) = CLOSED \<and>
                 failures (circuitBreaker (recordCircuitBreakerSuccess g1)) = 0)"
proof -
  have cb: "circuitBreaker g =
              \<lparr> failures = 5, threshold = 5, timeout = 60000, state = OPEN,
                lastFailure = Some t5 \<rparr>"
    using breaker by (simp only: five_failures_breaker)
  have four: "canProceed
                (recordCircuitBreakerFailure t4
                  (recordCircuitBreakerFailure t3 (recordCircuitBreakerFailure t2
                    (recordCircuitBreakerFailure t1
                      (new_ResourceGuard suiteType customLimits t0 heap0)))))"
    unfolding canProceed_def four_failures_breaker by simp
  have opened: "state (circuitBreaker g) = OPEN" "\<not> canProceed g"
    by (simp_all add: cb canProceed_def)
  obtain g1 n where run: "checkResourceLimits host g = Running (g1, n)"
    and cb1: "circuitBreaker g1 = circuitBreaker (checkCircuitBreaker (dateNow host) g)"
    using check_keeps_running [OF runtime memory] by blast
  have half: "state (circuitBreaker g1) = HALF_OPEN"
    using clock cooldown by (simp add: cb1 checkCircuitBreaker_def cb cooldownExpired_def)
  have closed: "state (circuitBreaker (recordCircuitBreakerSuccess g1)) = CLOSED"
    "failures (circuitBreaker (recordCircuitBreakerSuccess g1)) = 0"
    using half by (simp_all add: recordCircuitBreakerSuccess_def Let_def)
  show ?thesis using four opened run half closed by blast
qed

theorem circuit_breaker_cycle_witness:
  "\<exists>g1 n. checkResourceLimits (hostAfter 70000 50000000) openedEarly = Running (g1, n) \<and>
          state (circuitBreaker g1) = HALF_OPEN \<and>
          state (circuitBreaker (recordCircuitBreakerSuccess g1)) = CLOSED \<and>
          failures (circuitBreaker (recordCircuitBreakerSuccess g1)) = 0"
proof -
  have h1: "circuitBreaker openedEarly =
              circuitBreaker
                (recordCircuitBreakerFailure 1700000005000
                  (recordCircuitBreakerFailure 1700000004000
                    (recordCircuitBreakerFailure 1700000003000
                      (recordCircuitBreakerFailure 1700000002000
                        (recordCircuitBreakerFailure 1700000001000
                          (new_ResourceGuard ''smoke'' noCustomLimits
                             1700000000000 50000000))))))"
    by (simp only: openedEarly_def freshGuard_def)
  have h2: "(1700000005000::int) \<noteq> 0" by simp
  have h3: "dateNow (hostAfter 70000 50000000) - 1700000005000 > 60000"
    by (simp add: hostAfter_def)
  have h4: "\<not> runtimeExceeded openedEarly (hostAfter 70000 50000000)"
    by (simp add: runtimeExceeded_def fresh_guard_defs openedEarly_def
          recordCircuitBreakerFailure_def Let_def)
  have h5: "\<not> memoryExceeded openedEarly (hostAfter 70000 50000000) \<or>
            resourceWarnings (stats openedEarly) < 3"
    by (simp add: fresh_guard_defs openedEarly_def recordCircuitBreakerFailure_def Let_def)
  from circuit_breaker_cycle [OF h1 h2 h3 h4 h5] show ?thesis by blast
qed

lemma backoff_mono: "1 \<le> k \<Longrightarrow> backoffMs k \<le> backoffMs (k + 1)"
proof -
  assume k: "1 \<le> k"
  have "nat (k + 1 - 1) = Suc (nat (k - 1))" using k by simp
  then have "(1000::int) * 2 ^ nat (k - 1) \<le> 1000 * 2 ^ nat (k + 1 - 1)" by simp
  then show ?thesis unfolding backoffMs_def by (rule min.mono) simp
qed

text \<open>
  Claim C4. \<open>withRetry\<close> with \<open>maxRetries = 3\<close> and an operation that throws on every
  invocation invokes it exactly three times with exactly two sleeps between the attempts,
  of 1000 ms and then 2000 ms, and none after the last; it throws what the third attempt
  threw, after counting three retries and recording one circuit-breaker failure. The
  sleep after attempt \<open>k\<close> is \<open>min(1000 * 2^(k-1), 10000)\<close> ms, which never decreases.
\<close>

theorem withRetry_three_failures:
  assumes always: "\<And>k. operation k = Inl (err k)"
  shows "withRetry g operation name (Some 3) now =
           (Inl (err 3),
            recordCircuitBreakerFailure now
              (g\<lparr>stats := (stats g)\<lparr>retriesUsed := retriesUsed (stats g) + 3\<rparr>\<rparr>),
            [Invoked 1, Slept 1000, Invoked 2, Slept 2000, Invoked 3]) \<and>
         backoffMs 1 = 1000 \<and> backoffMs 2 = 2000 \<and>
         (\<forall>k\<ge>1. backoffMs k = min (1000 * 2 ^ nat (k - 1)) 10000 \<and>
                 backoffMs k \<le> backoffMs (k + 1))"
proof -
  have b: "backoffMs 1 = 1000" "backoffMs 2 = 2000" by (simp_all add: backoffMs_def)
  have "withRetry g operation name (Some 3) now =
           (Inl (err 3),
            recordCircuitBreakerFailure now
              (g\<lparr>stats := (stats g)\<lparr>retriesUsed := retriesUsed (stats g) + 3\<rparr>\<rparr>),
            [Invoked 1, Slept 1000, Invoked 2, Slept 2000, Invoked 3])"
    by (simp add: withRetry_def or_else_def retry_loop.simps always Let_def b add.commute)
  then show ?thesis using b backoff_mono by (simp add: backoffMs_def)
qed

theorem withRetry_three_failures_witness:
  "fst (withRetry freshGuard failingOperation ''click submit'' (Some 3) 1700000009000) =
     Inl (Error ''element is not attached'') \<and>
   snd (snd (withRetry freshGuard failingOperation ''click submit'' (Some 3) 1700000009000)) =
     [Invoked 1, Slept 1000, Invoked 2, Slept 2000, Invoked 3] \<and>
   failures (circuitBreaker
     (fst (snd (withRetry freshGuard failingOperation ''click submit'' (Some 3)
                  1700000009000)))) = 1"
proof -
  have h: "\<And>k. failingOperation k = Inl ((\<lambda>k. Error ''element is not attached'') k)"
    by (simp add: failingOperation_def)
  from withRetry_three_failures [of failingOperation "\<lambda>k. Error ''element is not attached''",
         OF h, of freshGuard "''click submit''" 1700000009000]
  show ?thesis by (simp add: fresh_guard_defs recordCircuitBreakerFailure_def Let_def)
qed

lemma checkCircuitBreaker_frame:
  "limits (checkCircuitBreaker now g) = limits g" "stats (checkCircuitBreaker now g) = stats g"
  by (simp_all add: checkCircuitBreaker_def)

lemma check_within_runtime:
  "\<not> runtimeExceeded g h \<Longrightarrow>
   checkResourceLimits h g =
     (if memoryExceeded g h
      then (if resourceWarnings (stats g) + 1 > 3 then Exited 1
            else Running (checkCircuitBreaker (dateNow h)
                            (g\<lparr>stats := (stats g)\<lparr>resourceWarnings :=
                                                    resourceWarnings (stats g) + 1\<rparr>\<rparr>),
                          if gcExposed h then 1 else 0))
      else Running (checkCircuitBreaker (dateNow h) g, 0))"
  by (simp add: checkResourceLimits_def runtimeExceeded_def memoryExceeded_def Let_def
        handleResourceLimit_def emergencyShutdown_def)

lemma exceeded_frame:
  "memoryExceeded (checkCircuitBreaker now g) = memoryExceeded g"
  "runtimeExceeded (checkCircuitBreaker now g) = runtimeExceeded g"
  "memoryExceeded (g\<lparr>stats := (stats g)\<lparr>resourceWarnings := w\<rparr>\<rparr>) = memoryExceeded g"
  "runtimeExceeded (g\<lparr>stats := (stats g)\<lparr>resourceWarnings := w\<rparr>\<rparr>) = runtimeExceeded g"
  by (simp_all add: memoryExceeded_def runtimeExceeded_def fun_eq_iff checkCircuitBreaker_def)

text \<open>One check within the runtime limit, seen through the warning counter.\<close>

lemma check_step:
  assumes "\<not> runtimeExceeded g h" and "resourceWarnings (stats g) \<le> 3"
  shows "(memoryExceeded g h \<and> resourceWarnings (stats g) = 3 \<and>
          checkResourceLimits h g = Exited 1) \<or>
         (\<exists>g1. checkResourceLimits h g =
                  Running (g1, if memoryExceeded g h \<and> gcExposed h then 1 else 0) \<and>
               resourceWarnings (stats g1) =
                  resourceWarnings (stats g) + (if memoryExceeded g h then 1 else 0) \<and>
               resourceWarnings (stats g1) \<le> 3 \<and>
               memoryExceeded g1 = memoryExceeded g \<and> runtimeExceeded g1 = runtimeExceeded g)"
proof (cases "memoryExceeded g h")
  case False
  then show ?thesis
    using assms by (simp add: check_within_runtime exceeded_frame checkCircuitBreaker_frame)
next
  case True
  show ?thesis
  proof (cases "resourceWarnings (stats g) = 3")
    case True
    with \<open>memoryExceeded g h\<close> assms show ?thesis by (simp add: check_within_runtime)
  next
    case False
    with assms have "\<not> resourceWarnings (stats g) + 1 > 3" by simp
    with \<open>memoryExceeded g h\<close> assms show ?thesis
      by (simp add: check_within_runtime exceeded_frame checkCircuitBreaker_frame)
  qed
qed

lemma monitor_Cons_running:
  "checkResourceLimits h g = Running (g1, n) \<Longrightarrow>
   resourceMonitoring (h # hosts) g =
     (case resourceMonitoring hosts g1 of
        Exited code \<Rightarrow> Exited code
      | Running (g2, m) \<Rightarrow> Running (g2, n + m))"
  by simp

text \<open>
  Claim C5 as stated fails: after three consecutive checks that find the heap above the
  limit the guard has counted three warnings and called the garbage collector three
  times, and the process is still running; nothing is shut down.
\<close>

theorem three_warnings_still_running_counterexample:
  "resourceMonitoring
     [hostAfter 5000 heavyHeap, hostAfter 10000 heavyHeap, hostAfter 15000 heavyHeap]
     freshGuard =
   Running (freshGuard\<lparr>stats := (stats freshGuard)\<lparr>resourceWarnings := 3\<rparr>\<rparr>, 3)"
  by (simp add: fresh_guard_defs heavyHeap_def checkResourceLimits_def Let_def
        checkCircuitBreaker_def handleResourceLimit_def emergencyShutdown_def)

text \<open>
  Claim C5, amended. Run the periodic monitor over any sequence of host readings that
  stay within the runtime limit, from a guard that has counted at most three warnings.
  Every check that finds the heap above \<open>maxMemoryMB\<close> adds one to the warning counter,
  which is never reset. While the counter is at most 3 the process keeps running, and
  the garbage collector has been called once for every such check on a host that exposes
  it. The check that takes the counter above 3, that is the fourth warning since
  construction, whether or not the four were consecutive, ends the process with exit
  code 1.
\<close>

theorem fourth_memory_warning_shuts_down:
  assumes "list_all (\<lambda>h. \<not> runtimeExceeded g h) hosts"
      and "resourceWarnings (stats g) \<le> 3"
  shows "(resourceMonitoring hosts g = Exited 1 \<and>
          3 < resourceWarnings (stats g) + int (length (filter (memoryExceeded g) hosts))) \<or>
         (\<exists>g'. resourceMonitoring hosts g =
                  Running (g', length (filter (\<lambda>h. memoryExceeded g h \<and> gcExposed h) hosts)) \<and>
               resourceWarnings (stats g') =
                  resourceWarnings (stats g) + int (length (filter (memoryExceeded g) hosts)) \<and>
               resourceWarnings (stats g') \<le> 3)"
  using assms
proof (induction hosts arbitrary: g)
  case Nil
  then show ?case by simp
next
  case (Cons h hosts)
  from Cons.prems have rt: "\<not> runtimeExceeded g h"
    and rest: "list_all (\<lambda>h. \<not> runtimeExceeded g h) hosts"
    and w3: "resourceWarnings (stats g) \<le> 3"
    by simp_all
  from check_step [OF rt w3] show ?case
  proof (elim disjE conjE exE)
    assume "memoryExceeded g h" "resourceWarnings (stats g) = 3"
      "checkResourceLimits h g = Exited 1"
    then show ?thesis by simp
  next
    fix g1
    assume step: "checkResourceLimits h g =
                    Running (g1, if memoryExceeded g h \<and> gcExposed h then 1 else 0)"
      and w1: "resourceWarnings (stats g1) =
                 resourceWarnings (stats g) + (if memoryExceeded g h then 1 else 0)"
      and w1': "resourceWarnings (stats g1) \<le> 3"
      and fr: "memoryExceeded g1 = memoryExceeded g" "runtimeExceeded g1 = runtimeExceeded g"
    have "list_all (\<lambda>h. \<not> runtimeExceeded g1 h) hosts" using rest by (simp add: fr)
    from Cons.IH [OF this w1'] show ?thesis
    proof (elim disjE conjE exE)
      assume "resourceMonitoring hosts g1 = Exited 1"
        and "3 < resourceWarnings (stats g1) + int (length (filter (memoryExceeded g1) hosts))"
      then show ?thesis
        using w1
        by (auto simp del: resourceMonitoring.simps
              simp add: monitor_Cons_running [OF step] fr split: if_splits)
    next
      fix g2
      assume "resourceMonitoring hosts g1 =
                Running (g2, length (filter (\<lambda>h. memoryExceeded g1 h \<and> gcExposed h) hosts))"
        and "resourceWarnings (stats g2) =
               resourceWarnings (stats g1) + int (length (filter (memoryExceeded g1) hosts))"
        and "resourceWarnings (stats g2) \<le> 3"
      then show ?thesis
        using w1
        by (auto simp del: resourceMonitoring.simps
              simp add: monitor_Cons_running [OF step] fr split: if_splits)
    qed
  qed
qed

theorem fourth_memory_warning_shuts_down_witness:
  "resourceMonitoring
     [hostAfter 5000 heavyHeap, hostAfter 10000 50000000, hostAfter 15000 heavyHeap,
      hostAfter 20000 heavyHeap, hostAfter 25000 heavyHeap]
     freshGuard = Exited 1"
proof -
  let ?hosts = "[hostAfter 5000 heavyHeap, hostAfter 10000 50000000, hostAfter 15000 heavyHeap,
                 hostAfter 20000 heavyHeap, hostAfter 25000 heavyHeap]"
  have h1: "list_all (\<lambda>h. \<not> runtimeExceeded freshGuard h) ?hosts"
    by (simp add: runtimeExceeded_def fresh_guard_defs)
  have h2: "resourceWarnings (stats freshGuard) \<le> 3"
    by (simp add: fresh_guard_defs)
  have count: "resourceWarnings (stats freshGuard) +
                 int (length (filter (memoryExceeded freshGuard) ?hosts)) = 4"
    by (simp add: memoryExceeded_def fresh_guard_defs heavyHeap_def)
  from fourth_memory_warning_shuts_down [OF h1 h2] show ?thesis
  proof (elim disjE conjE exE)
    assume "resourceMonitoring ?hosts freshGuard = Exited 1"
    then show ?thesis .
  next
    fix g' :: ResourceGuard
    assume "resourceWarnings (stats g') =
              resourceWarnings (stats freshGuard) +
              int (length (filter (memoryExceeded freshGuard) ?hosts))"
      and "resourceWarnings (stats g') \<le> 3"
    with count have False by linarith
    then show ?thesis ..
  qed
qed

text \<open>
  Claim C10. An explicit override of 0 is treated as an omitted argument:
  \<open>withRetry(op, name, 0)\<close> behaves as \<open>withRetry(op, name)\<close> and
  \<open>withTimeout(op, name, 0)\<close> as \<open>withTimeout(op, name)\<close>. With the default limits, an
  operation that always throws is attempted three times, not zero times, and an operation
  that needs five seconds returns its value under the 60 s default instead of timing out.
\<close>

theorem zero_override_selects_default:
  "withRetry g operation name (Some 0) now = withRetry g operation name None now \<and>
   withTimeout g raced name' (Some 0) = withTimeout g raced name' None \<and>
   snd (snd (withRetry (new_ResourceGuard suiteType noCustomLimits t0 heap0)
               (\<lambda>k. Inl e) name (Some 0) now)) =
     [Invoked 1, Slept 1000, Invoked 2, Slept 2000, Invoked 3] \<and>
   withTimeout (new_ResourceGuard suiteType noCustomLimits t0 heap0)
     (\<lambda>d. if 5000 < d then Some (Inr v) else None) name' (Some 0) = Inr v"
  by (simp add: withRetry_def withTimeout_def or_else_def retry_loop.simps Let_def backoffMs_def
        new_ResourceGuard_def defaultLimits_def noCustomLimits_def overridden_def)

section \<open>Properties of the page health scorer\<close>

lemma foldl_addPenalty:
  "int (foldl addPenalty p found) = int p + spec_accessibility_penalty found"
proof (induction found arbitrary: p)
  case Nil
  then show ?case by (simp add: spec_accessibility_penalty_def)
next
  case (Cons issue found)
  show ?case
    using Cons.IH [of "addPenalty p issue"]
    by (cases "ai_severity issue") (simp_all add: spec_accessibility_penalty_def addPenalty_def)
qed

lemma penalty_nonneg: "0 \<le> spec_accessibility_penalty found"
  unfolding spec_accessibility_penalty_def
  by (induction found) (auto split: Severity.splits)

lemma slowPaint_iff:
  "slowPaint pm = (case fcp_of pm of None \<Rightarrow> False | Some t \<Rightarrow> t > 3000)"
  by (auto simp add: slowPaint_def split: option.splits)

lemma score_raw:
  "score (assessPageHealth now isoNow scorer page) =
     max 0 (100
       - (if length (filter (\<lambda>e. now - oce_timestamp e < 5000) (sc_consoleErrors scorer)) > 0
          then int (length (filter (\<lambda>e. now - oce_timestamp e < 5000)
                              (sc_consoleErrors scorer))) * 10
          else 0)
       - (if length (filter (\<lambda>f. now - onf_timestamp f < 5000) (sc_networkFailures scorer)) > 0
          then int (length (filter (\<lambda>f. now - onf_timestamp f < 5000)
                              (sc_networkFailures scorer))) * 15
          else 0)
       - (if slowPaint (capturePerformanceMetrics page) then 20 else 0)
       - (if length (checkAccessibilityIssues page) > 0
          then int (foldl addPenalty 0 (checkAccessibilityIssues page)) else 0))"
  unfolding assessPageHealth_def Let_def by (simp only: PageHealthReport.simps)

lemma clamp_arith:
  fixes E F :: nat and P :: int
  assumes "0 \<le> P"
  shows "max 0 (100 - (if 0 < E then int E * 10 else 0) - (if 0 < F then int F * 15 else 0)
                  - (if s then 20 else 0) - P) =
         max 0 (min 100 (100 - 10 * int E - 15 * int F - (if s then 20 else 0) - P))"
  using assms by (auto simp add: max_def min_def)

lemma score_formula:
  "score (assessPageHealth now isoNow scorer page) =
     spec_score
       (length (filter (\<lambda>e. now - oce_timestamp e < 5000) (sc_consoleErrors scorer)))
       (length (filter (\<lambda>f. now - onf_timestamp f < 5000) (sc_networkFailures scorer)))
       (case fcp_of (capturePerformanceMetrics page) of None \<Rightarrow> False | Some t \<Rightarrow> t > 3000)
       (checkAccessibilityIssues page)"
proof -
  let ?found = "checkAccessibilityIssues page"
  have p: "int (foldl addPenalty 0 ?found) = spec_accessibility_penalty ?found"
    using foldl_addPenalty [of 0 ?found] by simp
  have e: "(if 0 < length ?found then spec_accessibility_penalty ?found else 0) =
           spec_accessibility_penalty ?found"
    by (cases ?found) (simp_all add: spec_accessibility_penalty_def)
  have s: "(case fcp_of (capturePerformanceMetrics page) of
              None \<Rightarrow> False | Some t \<Rightarrow> t > 3000) =
           slowPaint (capturePerformanceMetrics page)"
    by (simp add: slowPaint_iff)
  show ?thesis
    unfolding score_raw s p e spec_score_def
    by (rule clamp_arith [OF penalty_nonneg])
qed

text \<open>
  Claim C9. The score returned by \<open>assessPageHealth\<close> is 100 minus 10 per console error
  of the last five seconds, minus 15 per network failure of the last five seconds, minus
  20 if the first contentful paint the page reports exceeds 3000 ms, minus the
  accessibility penalty for the issues the page reports (10, 5 and 2 per occurrence of a
  high, medium and low severity issue), clamped to the range from 0 to 100. A page
  whose measurement throws contributes no paint time, respectively no issue. In
  particular a page with no recent console error, no recent network failure, a first
  contentful paint below 3000 ms and no accessibility issue scores exactly 100.
\<close>

theorem page_health_score:
  "score (assessPageHealth now isoNow scorer page) =
     spec_score
       (length (filter (\<lambda>e. now - oce_timestamp e < 5000) (sc_consoleErrors scorer)))
       (length (filter (\<lambda>f. now - onf_timestamp f < 5000) (sc_networkFailures scorer)))
       (case sp_performance page of
          Inl thrownValue \<Rightarrow> False
        | Inr measured \<Rightarrow>
            (case ppm_firstContentfulPaint measured of None \<Rightarrow> False | Some t \<Rightarrow> t > 3000))
       (case sp_accessibility page of Inl thrownValue \<Rightarrow> [] | Inr found \<Rightarrow> found) \<and>
   (filter (\<lambda>e. now - oce_timestamp e < 5000) (sc_consoleErrors scorer) = [] \<and>
    filter (\<lambda>f. now - onf_timestamp f < 5000) (sc_networkFailures scorer) = [] \<and>
    (\<exists>measured t. sp_performance page = Inr measured \<and>
                   ppm_firstContentfulPaint measured = Some t \<and> t < 3000) \<and>
    sp_accessibility page = Inr []
    \<longrightarrow> score (assessPageHealth now isoNow scorer page) = 100)"
proof -
  have paint:
    "(case fcp_of (capturePerformanceMetrics page) of None \<Rightarrow> False | Some t \<Rightarrow> t > 3000) =
     (case sp_performance page of
        Inl thrownValue \<Rightarrow> False
      | Inr measured \<Rightarrow>
          (case ppm_firstContentfulPaint measured of None \<Rightarrow> False | Some t \<Rightarrow> t > 3000))"
    by (simp add: fcp_of_def capturePerformanceMetrics_def split: sum.splits)
  have found:
    "checkAccessibilityIssues page =
     (case sp_accessibility page of Inl thrownValue \<Rightarrow> [] | Inr found \<Rightarrow> found)"
    by (simp add: checkAccessibilityIssues_def split: sum.splits)
  have formula:
    "score (assessPageHealth now isoNow scorer page) =
       spec_score
         (length (filter (\<lambda>e. now - oce_timestamp e < 5000) (sc_consoleErrors scorer)))
         (length (filter (\<lambda>f. now - onf_timestamp f < 5000) (sc_networkFailures scorer)))
         (case sp_performance page of
            Inl thrownValue \<Rightarrow> False
          | Inr measured \<Rightarrow>
              (case ppm_firstContentfulPaint measured of None \<Rightarrow> False | Some t \<Rightarrow> t > 3000))
         (case sp_accessibility page of Inl thrownValue \<Rightarrow> [] | Inr found \<Rightarrow> found)"
    using score_formula [of now isoNow scorer page] by (simp only: paint found)
  show ?thesis
    unfolding formula
    by (auto simp add: spec_score_def spec_accessibility_penalty_def)
qed

theorem page_health_score_witness:
  "score (assessPageHealth 1700000002000 ''2023-11-14T22:13:22.000Z'' quietScorer
            fastCleanPage) = 100 \<and>
   score (assessPageHealth 1700000002000 ''2023-11-14T22:13:22.000Z'' quietScorer
            slowUnlabelledPage) = 50 \<and>
   score (assessPageHealth 1700000002000 ''2023-11-14T22:13:22.000Z'' noisyScorer
            fastCleanPage) = 65"
proof -
  have h: "filter (\<lambda>e. 1700000002000 - oce_timestamp e < 5000) (sc_consoleErrors quietScorer) = [] \<and>
           filter (\<lambda>f. 1700000002000 - onf_timestamp f < 5000)
             (sc_networkFailures quietScorer) = [] \<and>
           (\<exists>measured t. sp_performance fastCleanPage = Inr measured \<and>
                          ppm_firstContentfulPaint measured = Some t \<and> t < 3000) \<and>
           sp_accessibility fastCleanPage = Inr []"
    by (simp add: quietScorer_def fastCleanPage_def)
  from page_health_score [of 1700000002000 "''2023-11-14T22:13:22.000Z''" quietScorer
         fastCleanPage] h
  have clean: "score (assessPageHealth 1700000002000 ''2023-11-14T22:13:22.000Z'' quietScorer
                        fastCleanPage) = 100"
    by blast
  from page_health_score [of 1700000002000 "''2023-11-14T22:13:22.000Z''" quietScorer
         slowUnlabelledPage]
  have degraded: "score (assessPageHealth 1700000002000 ''2023-11-14T22:13:22.000Z''
                           quietScorer slowUnlabelledPage) = 50"
    by (simp add: quietScorer_def slowUnlabelledPage_def spec_score_def
          spec_accessibility_penalty_def)
  from page_health_score [of 1700000002000 "''2023-11-14T22:13:22.000Z''" noisyScorer
         fastCleanPage]
  have noisy: "score (assessPageHealth 1700000002000 ''2023-11-14T22:13:22.000Z''
                        noisyScorer fastCleanPage) = 65"
    by (simp add: noisyScorer_def fastCleanPage_def spec_score_def
          spec_accessibility_penalty_def)
  from clean degraded noisy show ?thesis by blast
qed

section \<open>Properties of the evidence collector\<close>

lemmas capture_defs =
  captureScreenshot_def captureDOMSnapshot_def captureConsoleErrors_def
  captureNetworkFailures_def capturePerformanceEvidence_def captureLocalStorageState_def
  captureAccessibilityTree_def

lemma collect_completes:
  assumes "mkdir_throws disk (bundleDir baseDir clock failure) = None"
      and "pg_userAgent page = Inr userAgent"
      and "writeFile_throws disk (path_join (bundleDir baseDir clock failure) ''evidence.json'')
             = None"
  shows "\<exists>bundle.
           fst (collect baseDir clock disk page failure) = Inr bundle \<and>
           (path_join (bundleDir baseDir clock failure) ''evidence.json'', ManifestJson bundle)
             \<in> set (snd (collect baseDir clock disk page failure)) \<and>
           eb_screenshot bundle =
             Some (fst (captureScreenshot page (bundleDir baseDir clock failure))) \<and>
           eb_domSnapshot bundle =
             Some (fst (captureDOMSnapshot page disk (bundleDir baseDir clock failure))) \<and>
           eb_consoleErrors bundle =
             Some (fst (captureConsoleErrors page disk (ck_nowMs clock)
                          (bundleDir baseDir clock failure))) \<and>
           eb_networkFailures bundle =
             Some (fst (captureNetworkFailures page disk (ck_nowMs clock)
                          (bundleDir baseDir clock failure))) \<and>
           eb_performanceMetrics bundle =
             Some (fst (capturePerformanceEvidence page disk (ck_nowMs clock)
                          (bundleDir baseDir clock failure))) \<and>
           eb_localStorage bundle =
             Some (fst (captureLocalStorageState page disk (bundleDir baseDir clock failure))) \<and>
           eb_accessibility bundle =
             Some (fst (captureAccessibilityTree page disk (bundleDir baseDir clock failure)))"
  using assms
  by (simp add: collect_def bundleDir_def Let_def settled_value_def)

lemma screenshot_failure_recorded:
  "pg_screenshot page = Some e \<Longrightarrow>
   \<not> ss_captured (fst (captureScreenshot page dir)) \<and>
   ss_error (fst (captureScreenshot page dir)) = Some (message_of e)"
  by (simp add: captureScreenshot_def Let_def)

lemma other_six_captured:
  assumes "otherSixSucceed disk page dir"
  shows "ds_captured (fst (captureDOMSnapshot page disk dir)) \<and>
         cev_captured (fst (captureConsoleErrors page disk now dir)) \<noteq> Some False \<and>
         nev_captured (fst (captureNetworkFailures page disk now dir)) \<noteq> Some False \<and>
         pme_captured (fst (capturePerformanceEvidence page disk now dir)) \<noteq> Some False \<and>
         sse_captured (fst (captureLocalStorageState page disk dir)) \<noteq> Some False \<and>
         ae_captured (fst (captureAccessibilityTree page disk dir)) \<noteq> Some False"
  using assms
  by (auto simp add: otherSixSucceed_def capture_defs Let_def
        PerformancePayload.extend_def PerformanceMetricsEvidence.fields_def
        StoragePayload.extend_def StorageStateEvidence.fields_def
        AccessibilityPayload.extend_def AccessibilityEvidence.fields_def
        split: sum.splits)

text \<open>
  Once the bundle directory exists and the page has returned its user agent, nothing but
  the manifest write can make \<open>collect\<close> throw: every sub-capture's record is in the
  bundle, a throwing screenshot as \<open>captured = false\<close> with the error's message, and the
  other six without \<open>captured = false\<close> when they succeed.
\<close>

lemma collect_after_preamble:
  assumes "mkdir_throws disk (bundleDir baseDir clock failure) = None"
      and "pg_userAgent page = Inr userAgent"
      and "writeFile_throws disk (path_join (bundleDir baseDir clock failure) ''evidence.json'')
             = None"
  shows "\<exists>bundle s d c n p l a.
           fst (collect baseDir clock disk page failure) = Inr bundle \<and>
           (path_join (bundleDir baseDir clock failure) ''evidence.json'', ManifestJson bundle)
             \<in> set (snd (collect baseDir clock disk page failure)) \<and>
           eb_screenshot bundle = Some s \<and> eb_domSnapshot bundle = Some d \<and>
           eb_consoleErrors bundle = Some c \<and> eb_networkFailures bundle = Some n \<and>
           eb_performanceMetrics bundle = Some p \<and> eb_localStorage bundle = Some l \<and>
           eb_accessibility bundle = Some a \<and>
           (\<forall>e. pg_screenshot page = Some e \<longrightarrow>
                  \<not> ss_captured s \<and> ss_error s = Some (message_of e)) \<and>
           (otherSixSucceed disk page (bundleDir baseDir clock failure) \<longrightarrow>
              ds_captured d \<and> cev_captured c \<noteq> Some False \<and> nev_captured n \<noteq> Some False \<and>
              pme_captured p \<noteq> Some False \<and> sse_captured l \<noteq> Some False \<and>
              ae_captured a \<noteq> Some False)"
proof -
  from collect_completes [OF assms] obtain evidence where
    b: "fst (collect baseDir clock disk page failure) = Inr evidence"
       "(path_join (bundleDir baseDir clock failure) ''evidence.json'', ManifestJson evidence)
          \<in> set (snd (collect baseDir clock disk page failure))"
    and f: "eb_screenshot evidence =
              Some (fst (captureScreenshot page (bundleDir baseDir clock failure)))"
       "eb_domSnapshot evidence =
              Some (fst (captureDOMSnapshot page disk (bundleDir baseDir clock failure)))"
       "eb_consoleErrors evidence =
              Some (fst (captureConsoleErrors page disk (ck_nowMs clock)
                           (bundleDir baseDir clock failure)))"
       "eb_networkFailures evidence =
              Some (fst (captureNetworkFailures page disk (ck_nowMs clock)
                           (bundleDir baseDir clock failure)))"
       "eb_performanceMetrics evidence =
              Some (fst (capturePerformanceEvidence page disk (ck_nowMs clock)
                           (bundleDir baseDir clock failure)))"
       "eb_localStorage evidence =
              Some (fst (captureLocalStorageState page disk (bundleDir baseDir clock failure)))"
       "eb_accessibility evidence =
              Some (fst (captureAccessibilityTree page disk (bundleDir baseDir clock failure)))"
    by blast
  show ?thesis
    using b f screenshot_failure_recorded [of page _ "bundleDir baseDir clock failure"]
      other_six_captured [of disk page "bundleDir baseDir clock failure" "ck_nowMs clock"]
    by blast
qed

text \<open>
  Claim C6. The claim expects \<open>collect\<close> to complete without throwing and to write the
  \<open>evidence.json\<close> manifest for every page session, even when every sub-capture fails.
  The code reads the user agent from the page before it starts the captures, outside
  any \<open>try\<close>. On a page whose browser has gone, with a working disk, that call throws:
  \<open>collect\<close> throws the same error and no file has been written, not even the manifest.
  On the same page the sub-captures that call the driver catch what it throws and return
  their \<open>captured = false\<close> records with the error's message.
\<close>

theorem collect_throws_on_closed_page:
  "collect ''artifacts/evidence'' sampleClock workingDisk closedPage sampleFailure =
     (Inl (Error ''Target closed''), []) \<and>
   fst (captureScreenshot closedPage ''artifacts/evidence/2024-01-01T00-00-00-000Z-login-works'') =
     \<lparr> ss_path = [], ss_type = [], ss_captured = False,
       ss_error = Some ''Target closed'' \<rparr> \<and>
   fst (captureDOMSnapshot closedPage workingDisk ''artifacts/evidence/2024-01-01T00-00-00-000Z-login-works'') =
     \<lparr> ds_path = [], ds_size = 0, ds_captured = False, ds_error = Some ''Target closed'' \<rparr> \<and>
   pme_captured (fst (capturePerformanceEvidence closedPage workingDisk 1704067200001
                        ''artifacts/evidence/2024-01-01T00-00-00-000Z-login-works'')) = Some False \<and>
   sse_captured (fst (captureLocalStorageState closedPage workingDisk
                        ''artifacts/evidence/2024-01-01T00-00-00-000Z-login-works'')) = Some False \<and>
   ae_captured (fst (captureAccessibilityTree closedPage workingDisk
                       ''artifacts/evidence/2024-01-01T00-00-00-000Z-login-works'')) = Some False"
  by (simp add: collect_def Let_def workingDisk_def closedPage_def capture_defs
        domSnapshotFailed_def performanceFailed_def storageFailed_def accessibilityFailed_def
        message_of_def)

end
